theory Spec2Isabelle
  imports Main "HOL-Library.Word" "HOL-Library.AList"
begin

section \<open>The data model of croc.go\<close>

text \<open>
  The builder \<open>CrocClient\<close> is a record of its sixteen fields, in the order of the
  source. Methods with a pointer receiver take the record and return the updated one.
  What the Go standard library does behind a call (parsing, sending, reading a body) is
  not code of this package: it is a parameter of the model, the record \<open>stdlib\<close> below,
  and the state those calls act on (network, cookie jar, open body streams) is a value of
  an arbitrary type \<open>'w\<close> that \<open>End\<close> and \<open>Do\<close> thread through.
\<close>

type_synonym bytes = "8 word list"

text \<open>A Go \<open>error\<close> value, kept by its message as \<open>errors.New\<close> builds it.\<close>

datatype error = errorString string

text \<open>A parsed \<open>*url.URL\<close>, kept by the text it was parsed from.\<close>

datatype url_URL = URL string

text \<open>
  \<open>http.Header\<close> is \<open>map[string][]string\<close>: an association list with one entry per
  key. Only \<open>Header_Set\<close> and \<open>Header_Add\<close> below write to it.
\<close>

type_synonym http_Header = "(string \<times> string list) list"

record http_Cookie =
  Name :: string
  Value :: string

record http_Request =
  req_Method :: string
  req_URL :: url_URL
  req_Header :: http_Header
  req_Body :: bytes

text \<open>
  \<open>ContentLength\<close> is an int64, a 64-bit word in two's complement (\<open>- 1\<close> is the
  unknown length). \<open>resp_Body\<close> is the handle of the body stream, which \<open>io.ReadAll\<close>
  reads.
\<close>

record http_Response =
  StatusCode :: int
  resp_Header :: http_Header
  ContentLength :: "64 word"
  resp_Body :: nat

text \<open>\<open>type Request *http.Request\<close> and \<open>type Response *http.Response\<close>: \<open>None\<close> is nil.\<close>

type_synonym Request = "http_Request option"
type_synonym Response = "http_Response option"

record BasicAuth =
  Username :: string
  Password :: string

text \<open>\<open>type Proxy func(r *http.Request) (*url.URL, error)\<close>\<close>

type_synonym Proxy = "http_Request \<Rightarrow> error + url_URL option"

text \<open>
  The two library objects the builder points to. \<open>transport_Proxy\<close> is the field
  \<open>Proxy\<close> of \<open>http.Transport\<close>. The field \<open>Transport\<close> of \<open>http.Client\<close> is either nil
  or the builder's own transport, the only value the source assigns to it; the client's
  cookie jar is library state and part of the world \<open>'w\<close>.
\<close>

record http_Transport =
  DisableKeepAlives :: bool
  transport_Proxy :: "Proxy option"

record http_Client =
  Transport_set :: bool

record CrocClient =
  url :: string
  "method" :: string
  headers :: http_Header
  client :: http_Client
  transport :: http_Transport
  cookies :: "http_Cookie list"
  basicAuth :: BasicAuth
  rawBody :: bytes
  proxy :: "Proxy option"
  err :: "error option"
  lastRequest :: Request
  lastResponse :: Response
  respStatusCode :: int
  respHeaders :: http_Header
  rawRespBody :: bytes
  contentLength :: "64 word"

section \<open>The standard library, as far as croc.go calls it\<close>

text \<open>
  \<^item> \<open>CanonicalMIMEHeaderKey\<close>: the canonical form of a header key
    (\<open>textproto.CanonicalMIMEHeaderKey\<close>), which \<open>Header.Set\<close>, \<open>Header.Add\<close> and
    \<open>Header.Get\<close> apply to their key;
  \<^item> \<open>url_Parse\<close>: \<open>url.Parse\<close>;
  \<^item> \<open>NewRequest_check\<close>: what \<open>http.NewRequest\<close> validates (the method token, the
    URL), giving the error or the parsed URL;
  \<^item> \<open>basicAuth_encode\<close>: the base64 text of \<open>username:password\<close>;
  \<^item> \<open>cookie_pair\<close>: the sanitised \<open>name=value\<close> text of a cookie;
  \<^item> \<open>client_Do\<close>: \<open>(*http.Client).Do\<close>, given the client, the transport its field
    \<open>Transport\<close> points to, and the request. It gives the response or the error, and
    the request as the call leaves it: \<open>Do\<close> receives a pointer and writes to the
    request's header (it adds the cookies of the client's jar with \<open>req.AddCookie\<close>);
  \<^item> \<open>io_ReadAll\<close>: \<open>io.ReadAll\<close> on a response's body, giving the bytes read and the
    error, if any;
  \<^item> \<open>Body_Close\<close>: \<open>resp.Body.Close()\<close>.
\<close>

record 'w stdlib =
  CanonicalMIMEHeaderKey :: "string \<Rightarrow> string"
  url_Parse :: "string \<Rightarrow> error + url_URL"
  NewRequest_check :: "string \<Rightarrow> string \<Rightarrow> error + url_URL"
  basicAuth_encode :: "string \<Rightarrow> string \<Rightarrow> string"
  cookie_pair :: "http_Cookie \<Rightarrow> string"
  client_Do :: "http_Client \<Rightarrow> http_Transport \<Rightarrow> http_Request \<Rightarrow> 'w
                  \<Rightarrow> (error + http_Response) \<times> http_Request \<times> 'w"
  io_ReadAll :: "http_Response \<Rightarrow> 'w \<Rightarrow> (bytes \<times> error option) \<times> 'w"
  Body_Close :: "http_Response \<Rightarrow> 'w \<Rightarrow> 'w"

text \<open>\<open>h[key]\<close>: the value list of a key, nil (the empty list) when the key is absent.\<close>

definition Header_values :: "http_Header \<Rightarrow> string \<Rightarrow> string list" where
  "Header_values h key = (case map_of h key of None \<Rightarrow> [] | Some vs \<Rightarrow> vs)"

text \<open>\<open>Header.Set\<close>: \<open>h[CanonicalMIMEHeaderKey(key)] = []string{value}\<close>\<close>

definition Header_Set :: "'w stdlib \<Rightarrow> string \<Rightarrow> string \<Rightarrow> http_Header \<Rightarrow> http_Header" where
  "Header_Set env key val h = AList.update (CanonicalMIMEHeaderKey env key) [val] h"

text \<open>\<open>Header.Add\<close>: \<open>key = CanonicalMIMEHeaderKey(key); h[key] = append(h[key], value)\<close>\<close>

definition Header_Add :: "'w stdlib \<Rightarrow> string \<Rightarrow> string \<Rightarrow> http_Header \<Rightarrow> http_Header" where
  "Header_Add env key val h =
     (let k = CanonicalMIMEHeaderKey env key
      in AList.update k (Header_values h k @ [val]) h)"

text \<open>\<open>Header.Get\<close>: the first value of the canonical key, or the empty string.\<close>

definition Header_Get :: "'w stdlib \<Rightarrow> string \<Rightarrow> http_Header \<Rightarrow> string" where
  "Header_Get env key h =
     (case Header_values h (CanonicalMIMEHeaderKey env key) of [] \<Rightarrow> [] | v # _ \<Rightarrow> v)"

text \<open>
  \<open>http.NewRequest(method, url, body)\<close>: after its checks, a request with the method, the
  parsed URL, an empty header and the body.
\<close>

definition http_NewRequest :: "'w stdlib \<Rightarrow> string \<Rightarrow> string \<Rightarrow> bytes \<Rightarrow> error + http_Request" where
  "http_NewRequest env m u body =
     (case NewRequest_check env m u of
        Inl e \<Rightarrow> Inl e
      | Inr pu \<Rightarrow> Inr \<lparr>req_Method = m, req_URL = pu, req_Header = [], req_Body = body\<rparr>)"

text \<open>\<open>(*http.Request).SetBasicAuth\<close>: \<open>r.Header.Set("Authorization", "Basic "+enc)\<close>\<close>

definition Request_SetBasicAuth ::
  "'w stdlib \<Rightarrow> string \<Rightarrow> string \<Rightarrow> http_Request \<Rightarrow> http_Request" where
  "Request_SetBasicAuth env username password r =
     r\<lparr>req_Header :=
         Header_Set env ''Authorization'' (''Basic '' @ basicAuth_encode env username password)
           (req_Header r)\<rparr>"

text \<open>
  \<open>(*http.Request).AddCookie\<close>: the cookie's text is joined with \<open>"; "\<close> to a \<open>Cookie\<close>
  header that is already there and not empty, and set as the \<open>Cookie\<close> header otherwise.
\<close>

definition Request_AddCookie :: "'w stdlib \<Rightarrow> http_Cookie \<Rightarrow> http_Request \<Rightarrow> http_Request" where
  "Request_AddCookie env c r =
     (let s = cookie_pair env c;
          cur = Header_Get env ''Cookie'' (req_Header r)
      in if cur \<noteq> []
         then r\<lparr>req_Header := Header_Set env ''Cookie'' (cur @ ''; '' @ s) (req_Header r)\<rparr>
         else r\<lparr>req_Header := Header_Set env ''Cookie'' s (req_Header r)\<rparr>)"

text \<open>\<open>http.ProxyURL(u)\<close>: the resolver that answers \<open>u\<close> for every request.\<close>

definition http_ProxyURL :: "url_URL \<Rightarrow> Proxy" where
  "http_ProxyURL u = (\<lambda>r. Inr (Some u))"

section \<open>The builder's methods\<close>

definition GET :: string where "GET = ''GET''"
definition POST :: string where "POST = ''POST''"
definition PUT :: string where "PUT = ''PUT''"
definition DELETE :: string where "DELETE = ''DELETE''"
definition HEAD :: string where "HEAD = ''HEAD''"
definition PATCH :: string where "PATCH = ''PATCH''"
definition OPTIONS :: string where "OPTIONS = ''OPTIONS''"

text \<open>\<open>BasicAuth{}\<close>, the zero value.\<close>

definition emptyAuth :: BasicAuth where
  "emptyAuth = \<lparr>Username = [], Password = []\<rparr>"

definition New :: CrocClient where
  "New =
     \<lparr>url = [], method = [],
      headers = [],
      client = \<lparr>Transport_set = False\<rparr>,
      transport = \<lparr>DisableKeepAlives = True, transport_Proxy = None\<rparr>,
      cookies = [],
      basicAuth = emptyAuth,
      rawBody = [],
      proxy = None,
      err = None,
      lastRequest = None,
      lastResponse = None,
      respStatusCode = 0,
      respHeaders = [],
      rawRespBody = [],
      contentLength = 0\<rparr>"

definition Error :: "CrocClient \<Rightarrow> error option" where
  "Error cc = err cc"

definition ClearRequestData :: "CrocClient \<Rightarrow> CrocClient" where
  "ClearRequestData cc =
     cc\<lparr>url := [], method := [], headers := [], basicAuth := emptyAuth, rawBody := []\<rparr>"

definition ClearCookies :: "CrocClient \<Rightarrow> CrocClient" where
  "ClearCookies cc = cc\<lparr>cookies := []\<rparr>"

definition ClearProxy :: "CrocClient \<Rightarrow> CrocClient" where
  "ClearProxy cc = cc\<lparr>proxy := None\<rparr>"

definition Get :: "string \<Rightarrow> CrocClient \<Rightarrow> CrocClient" where
  "Get targetUrl cc = (ClearRequestData cc)\<lparr>method := GET, url := targetUrl, err := None\<rparr>"

definition Post :: "string \<Rightarrow> CrocClient \<Rightarrow> CrocClient" where
  "Post targetUrl cc = (ClearRequestData cc)\<lparr>method := POST, url := targetUrl, err := None\<rparr>"

definition Put :: "string \<Rightarrow> CrocClient \<Rightarrow> CrocClient" where
  "Put targetUrl cc = (ClearRequestData cc)\<lparr>method := PUT, url := targetUrl, err := None\<rparr>"

definition Delete :: "string \<Rightarrow> CrocClient \<Rightarrow> CrocClient" where
  "Delete targetUrl cc = (ClearRequestData cc)\<lparr>method := DELETE, url := targetUrl, err := None\<rparr>"

definition Head :: "string \<Rightarrow> CrocClient \<Rightarrow> CrocClient" where
  "Head targetUrl cc = (ClearRequestData cc)\<lparr>method := HEAD, url := targetUrl, err := None\<rparr>"

definition Patch :: "string \<Rightarrow> CrocClient \<Rightarrow> CrocClient" where
  "Patch targetUrl cc = (ClearRequestData cc)\<lparr>method := PATCH, url := targetUrl, err := None\<rparr>"

definition Options :: "string \<Rightarrow> CrocClient \<Rightarrow> CrocClient" where
  "Options targetUrl cc =
     (ClearRequestData cc)\<lparr>method := OPTIONS, url := targetUrl, err := None\<rparr>"

definition AddCookies :: "http_Cookie list \<Rightarrow> CrocClient \<Rightarrow> CrocClient" where
  "AddCookies cks cc = cc\<lparr>cookies := cookies cc @ cks\<rparr>"

definition SetHeader :: "'w stdlib \<Rightarrow> string \<Rightarrow> string \<Rightarrow> CrocClient \<Rightarrow> CrocClient" where
  "SetHeader env key val cc = cc\<lparr>headers := Header_Set env key val (headers cc)\<rparr>"

definition AppendHeader :: "'w stdlib \<Rightarrow> string \<Rightarrow> string \<Rightarrow> CrocClient \<Rightarrow> CrocClient" where
  "AppendHeader env key val cc = cc\<lparr>headers := Header_Add env key val (headers cc)\<rparr>"

definition SetBasicAuth :: "string \<Rightarrow> string \<Rightarrow> CrocClient \<Rightarrow> CrocClient" where
  "SetBasicAuth username password cc =
     cc\<lparr>basicAuth := \<lparr>Username = username, Password = password\<rparr>\<rparr>"

definition Proxy :: "'w stdlib \<Rightarrow> string \<Rightarrow> CrocClient \<Rightarrow> CrocClient" where
  "Proxy env proxyUrl cc =
     (case url_Parse env proxyUrl of
        Inl e \<Rightarrow> cc\<lparr>err := Some e\<rparr>
      | Inr parsedUrl \<Rightarrow> cc\<lparr>proxy := Some (http_ProxyURL parsedUrl)\<rparr>)"

definition Payload :: "bytes \<Rightarrow> CrocClient \<Rightarrow> CrocClient" where
  "Payload data cc = cc\<lparr>rawBody := data\<rparr>"

text \<open>
  The two nested loops of \<open>makeRequest\<close> over \<open>cc.headers\<close>: every value of every key is
  added to the request's header with \<open>req.Header.Add\<close>. Go leaves the order in which
  \<open>range\<close> visits the keys of a map open; the list order stands for any of them, and
  the last section shows that the order does not matter for the builder's header map.
\<close>

definition copy_headers :: "'w stdlib \<Rightarrow> http_Header \<Rightarrow> http_Request \<Rightarrow> http_Request" where
  "copy_headers env hs req =
     fold (\<lambda>(key, vals) r.
             fold (\<lambda>val r'. r'\<lparr>req_Header := Header_Add env key val (req_Header r')\<rparr>) vals r)
          hs req"

definition makeRequest :: "'w stdlib \<Rightarrow> CrocClient \<Rightarrow> error + http_Request" where
  "makeRequest env cc =
     (if method cc = [] then Inl (errorString ''no method specified'')
      else if url cc = [] then Inl (errorString ''no url specified'')
      else case http_NewRequest env (method cc) (url cc) (rawBody cc) of
        Inl e \<Rightarrow> Inl e
      | Inr req \<Rightarrow>
          let req1 = copy_headers env (headers cc) req;
              req2 = (if basicAuth cc \<noteq> emptyAuth
                      then Request_SetBasicAuth env (Username (basicAuth cc))
                             (Password (basicAuth cc)) req1
                      else req1);
              req3 = fold (Request_AddCookie env) (cookies cc) req2
          in Inr req3)"

text \<open>
  \<open>End\<close> returns the error (\<open>None\<close> is nil), the builder as the call leaves it, and the
  world. \<open>cc.lastRequest\<close> holds the pointer that \<open>client.Do\<close> is given, so from the
  call on the stored request is the request as \<open>client.Do\<close> has left it. The deferred
  \<open>resp.Body.Close()\<close> runs when the function returns, on both paths that follow the
  response.
\<close>

definition End :: "'w stdlib \<Rightarrow> CrocClient \<Rightarrow> 'w \<Rightarrow> error option \<times> CrocClient \<times> 'w" where
  "End env cc w =
     (case err cc of
        Some e \<Rightarrow> (Some e, cc, w)
      | None \<Rightarrow>
         (case makeRequest env cc of
            Inl e \<Rightarrow> (Some e, cc\<lparr>err := Some e\<rparr>, w)
          | Inr req \<Rightarrow>
              let cc1 = cc\<lparr>lastRequest := Some req\<rparr>;
                  cc2 = cc1\<lparr>transport := (transport cc1)\<lparr>transport_Proxy := proxy cc1\<rparr>\<rparr>;
                  cc3 = cc2\<lparr>client := (client cc2)\<lparr>Transport_set := True\<rparr>\<rparr>
              in (case client_Do env (client cc3) (transport cc3) req w of
                    (Inl e, req', w1) \<Rightarrow>
                       (Some e, cc3\<lparr>lastRequest := Some req', err := Some e\<rparr>, w1)
                  | (Inr resp, req', w1) \<Rightarrow>
                      let cc4 = cc3\<lparr>lastRequest := Some req', lastResponse := Some resp\<rparr>
                      in (case io_ReadAll env resp w1 of
                            ((body, Some e), w2) \<Rightarrow>
                               (Some e, cc4\<lparr>err := Some e\<rparr>, Body_Close env resp w2)
                          | ((body, None), w2) \<Rightarrow>
                               (None,
                                cc4\<lparr>rawRespBody := body,
                                    respStatusCode := StatusCode resp,
                                    respHeaders := resp_Header resp,
                                    contentLength := ContentLength resp\<rparr>,
                                Body_Close env resp w2)))))"

definition Request :: "CrocClient \<Rightarrow> Request" where
  "Request cc = lastRequest cc"

definition Response :: "CrocClient \<Rightarrow> Response" where
  "Response cc = lastResponse cc"

definition RespStatus :: "CrocClient \<Rightarrow> int" where
  "RespStatus cc = respStatusCode cc"

definition RespHeaders :: "CrocClient \<Rightarrow> http_Header" where
  "RespHeaders cc = respHeaders cc"

definition RespLength :: "CrocClient \<Rightarrow> 64 word" where
  "RespLength cc = contentLength cc"

definition RawRespBody :: "CrocClient \<Rightarrow> bytes" where
  "RawRespBody cc = rawRespBody cc"

text \<open>
  \<open>Do\<close> returns the response, the body (\<open>None\<close> is the nil slice) and the error, with the
  builder and the world as the call leaves them. The request is the caller's object:
  what \<open>client.Do\<close> writes to it is not among the results of \<open>Do\<close>.
\<close>

definition Do ::
  "'w stdlib \<Rightarrow> http_Request \<Rightarrow> CrocClient \<Rightarrow> 'w
     \<Rightarrow> (Response \<times> bytes option \<times> error option) \<times> CrocClient \<times> 'w" where
  "Do env req cc w =
     (let cc1 = cc\<lparr>transport := (transport cc)\<lparr>transport_Proxy := proxy cc\<rparr>\<rparr>;
          cc2 = cc1\<lparr>client := (client cc1)\<lparr>Transport_set := True\<rparr>\<rparr>
      in (case client_Do env (client cc2) (transport cc2) req w of
            (Inl e, req', w1) \<Rightarrow> ((None, None, Some e), cc2, w1)
          | (Inr resp, req', w1) \<Rightarrow>
              (case io_ReadAll env resp w1 of
                 ((body, Some e), w2) \<Rightarrow>
                    ((Some resp, None, Some e), cc2, Body_Close env resp w2)
               | ((body, None), w2) \<Rightarrow>
                    ((Some resp, Some body, None), cc2, Body_Close env resp w2))))"

section \<open>Notions the properties are stated with\<close>

text \<open>
  The response snapshot: the four fields that \<open>End\<close> writes together after a body has
  been read.
\<close>

definition snapshot :: "CrocClient \<Rightarrow> int \<times> http_Header \<times> bytes \<times> 64 word" where
  "snapshot cc = (respStatusCode cc, respHeaders cc, rawRespBody cc, contentLength cc)"

text \<open>The seven method-selection calls, each with the method constant it sets.\<close>

definition method_selection_calls :: "((string \<Rightarrow> CrocClient \<Rightarrow> CrocClient) \<times> string) list" where
  "method_selection_calls =
     [(Get, GET), (Post, POST), (Put, PUT), (Delete, DELETE), (Head, HEAD), (Patch, PATCH),
      (Options, OPTIONS)]"

text \<open>
  A header map as the builder keeps it: one entry per key, and every key in canonical
  form, since \<open>Header_Set\<close> and \<open>Header_Add\<close> store under the canonical key only.
\<close>

definition canonical_keys :: "'w stdlib \<Rightarrow> http_Header \<Rightarrow> bool" where
  "canonical_keys env h =
     (distinct (map fst h) \<and> list_all (\<lambda>k. CanonicalMIMEHeaderKey env k = k) (map fst h))"

text \<open>
  The values that a header map holds for a canonical key \<open>c\<close>, over all its entries whose
  key has that canonical form, in order: what \<open>copy_headers\<close> puts under \<open>c\<close> on an
  empty request header. For a map with canonical keys it is the value list of \<open>c\<close>.
\<close>

definition own_values :: "'w stdlib \<Rightarrow> http_Header \<Rightarrow> string \<Rightarrow> string list" where
  "own_values env hs c =
     concat (map snd (filter (\<lambda>kv. CanonicalMIMEHeaderKey env (fst kv) = c) hs))"

text \<open>
  The configuration calls, as values, so that a chain of them is a list. The
  method-selection calls and the executors are not among them.
\<close>

datatype config_call =
    Call_AddCookies "http_Cookie list"
  | Call_SetHeader string string
  | Call_AppendHeader string string
  | Call_SetBasicAuth string string
  | Call_Proxy string
  | Call_Payload bytes
  | Call_ClearRequestData
  | Call_ClearCookies
  | Call_ClearProxy

fun config :: "'w stdlib \<Rightarrow> config_call \<Rightarrow> CrocClient \<Rightarrow> CrocClient" where
  "config env (Call_AddCookies cks) cc = AddCookies cks cc"
| "config env (Call_SetHeader k v) cc = SetHeader env k v cc"
| "config env (Call_AppendHeader k v) cc = AppendHeader env k v cc"
| "config env (Call_SetBasicAuth u p) cc = SetBasicAuth u p cc"
| "config env (Call_Proxy s) cc = Proxy env s cc"
| "config env (Call_Payload d) cc = Payload d cc"
| "config env Call_ClearRequestData cc = ClearRequestData cc"
| "config env Call_ClearCookies cc = ClearCookies cc"
| "config env Call_ClearProxy cc = ClearProxy cc"

text \<open>A call other than a \<open>Proxy\<close> call whose URL \<open>url.Parse\<close> rejects.\<close>

fun proxy_url_parses :: "'w stdlib \<Rightarrow> config_call \<Rightarrow> bool" where
  "proxy_url_parses env (Call_Proxy s) = (case url_Parse env s of Inl e \<Rightarrow> False | Inr u \<Rightarrow> True)"
| "proxy_url_parses env c = True"

section \<open>A stub of the standard library\<close>

text \<open>
  A stub to run the builder against. Its world is the list of the requests its transport
  has sent, so the length of the list is the number of calls. It keeps header keys as
  they are written, rejects a URL that holds a line feed, refuses to connect to
  \<open>http://down\<close>, and answers every other request with status 200 and the body \<open>ok\<close>,
  except that the body of the answer from \<open>http://broken\<close> fails after one byte. Its
  cookie jar holds the cookie \<open>j=1\<close> for \<open>http://shop\<close> and nothing for any other URL,
  and \<open>client.Do\<close> adds the jar's cookies to the request with \<open>req.AddCookie\<close>.
\<close>

type_synonym stub_world = "http_Request list"

definition stub_url_Parse :: "string \<Rightarrow> error + url_URL" where
  "stub_url_Parse s =
     (if CHR 0x0A \<in> set s then Inl (errorString ''net/url: invalid control character in URL'')
      else Inr (URL s))"

definition stub_io_ReadAll :: "http_Response \<Rightarrow> stub_world \<Rightarrow> (bytes \<times> error option) \<times> stub_world" where
  "stub_io_ReadAll resp w =
     (if resp_Body resp = 1 then (([0x6F], Some (errorString ''unexpected EOF'')), w)
      else (([0x6F, 0x6B], None), w))"

text \<open>The stub without a network: its \<open>client.Do\<close> fails and leaves the request alone.\<close>

definition stub_library :: "stub_world stdlib" where
  "stub_library =
     \<lparr>CanonicalMIMEHeaderKey = (\<lambda>k. k),
      url_Parse = stub_url_Parse,
      NewRequest_check = (\<lambda>m u. stub_url_Parse u),
      basicAuth_encode = (\<lambda>u p. ''base64('' @ u @ '':'' @ p @ '')''),
      cookie_pair = (\<lambda>c. Name c @ ''='' @ Value c),
      client_Do = (\<lambda>c t req w. (Inl (errorString ''no network''), req, w)),
      io_ReadAll = stub_io_ReadAll,
      Body_Close = (\<lambda>resp w. w)\<rparr>"

definition jar_cookie :: http_Cookie where
  "jar_cookie = \<lparr>Name = ''j'', Value = ''1''\<rparr>"

definition stub_add_jar_cookies :: "http_Request \<Rightarrow> http_Request" where
  "stub_add_jar_cookies req =
     (if req_URL req = URL ''http://shop'' then Request_AddCookie stub_library jar_cookie req
      else req)"

definition stub_client_Do ::
  "http_Client \<Rightarrow> http_Transport \<Rightarrow> http_Request \<Rightarrow> stub_world
     \<Rightarrow> (error + http_Response) \<times> http_Request \<times> stub_world" where
  "stub_client_Do c t req w =
     (if req_URL req = URL ''http://down'' then Inl (errorString ''connection refused'')
      else Inr \<lparr>StatusCode = 200,
                resp_Header = [(''Content-Type'', [''text/plain''])],
                ContentLength = 2,
                resp_Body = (if req_URL req = URL ''http://broken'' then 1 else 0)\<rparr>,
      stub_add_jar_cookies req, w @ [stub_add_jar_cookies req])"

definition stub :: "stub_world stdlib" where
  "stub = stub_library\<lparr>client_Do := stub_client_Do\<rparr>"

text \<open>A proxy URL that \<open>url.Parse\<close> rejects: it holds a line feed.\<close>

definition bad_url :: string where
  "bad_url = [CHR ''h'', CHR 0x0A]"

text \<open>The request and the response of \<open>New().Get("http://a").End()\<close> against the stub.\<close>

definition request_a :: http_Request where
  "request_a = \<lparr>req_Method = ''GET'', req_URL = URL ''http://a'', req_Header = [], req_Body = []\<rparr>"

definition response_ok :: http_Response where
  "response_ok =
     \<lparr>StatusCode = 200, resp_Header = [(''Content-Type'', [''text/plain''])],
      ContentLength = 2, resp_Body = 0\<rparr>"

text \<open>The builder after that call.\<close>

definition served :: CrocClient where
  "served =
     New\<lparr>url := ''http://a'', method := ''GET'',
         client := \<lparr>Transport_set = True\<rparr>,
         lastRequest := Some request_a, lastResponse := Some response_ok,
         respStatusCode := 200, respHeaders := [(''Content-Type'', [''text/plain''])],
         rawRespBody := [0x6F, 0x6B], contentLength := 2\<rparr>"

text \<open>
  A builder with everything configured:
  \<open>New().Post("http://a").Payload("{}").SetHeader("X-Trace","1").SetBasicAuth("u","p")\<close>
  \<open>.Proxy("http://proxy:8080").AddCookies([sid=42])\<close>.
\<close>

definition session_cookie :: http_Cookie where
  "session_cookie = \<lparr>Name = ''sid'', Value = ''42''\<rparr>"

definition configured :: CrocClient where
  "configured =
     AddCookies [session_cookie]
       (Proxy stub ''http://proxy:8080''
          (SetBasicAuth ''u'' ''p''
             (SetHeader stub ''X-Trace'' ''1''
                (Payload [0x7B, 0x7D] (Post ''http://a'' New)))))"

section \<open>A freshly constructed builder\<close>

text \<open>
  C10. A builder just returned by \<open>New()\<close> has no error, no last request and no last
  response, an empty header map, an empty cookie list, no proxy resolver, and a response
  snapshot of status code 0, empty headers, empty body and content length 0, which is
  not -1; the accessors return these values.
\<close>

theorem New_is_empty:
  "Error New = None \<and> Request New = None \<and> Response New = None
   \<and> headers New = [] \<and> cookies New = [] \<and> proxy New = None
   \<and> RespStatus New = 0 \<and> RespHeaders New = [] \<and> RawRespBody New = []
   \<and> RespLength New = 0 \<and> RespLength New \<noteq> - 1"
  by (simp add: New_def Error_def Request_def Response_def RespStatus_def RespHeaders_def
      RawRespBody_def RespLength_def)

section \<open>The stub at work\<close>

lemmas stub_defs = stub_def stub_library_def stub_url_Parse_def stub_client_Do_def
  stub_add_jar_cookies_def stub_io_ReadAll_def

lemmas call_defs = Get_def Post_def Put_def Delete_def Head_def Patch_def Options_def
  ClearRequestData_def GET_def POST_def PUT_def DELETE_def HEAD_def PATCH_def OPTIONS_def

text \<open>\<open>New().Get("http://a").End()\<close> succeeds against the stub and leaves \<open>served\<close>.\<close>

lemma served_End: "End stub (Get ''http://a'' New) [] = (None, served, [request_a])"
  by (simp add: End_def makeRequest_def http_NewRequest_def copy_headers_def stub_defs
      call_defs New_def served_def request_a_def response_ok_def emptyAuth_def)

section \<open>The executor \<open>End\<close>\<close>

text \<open>\<open>End\<close> along each of its five paths.\<close>

lemma End_pending: "err cc = Some e \<Longrightarrow> End env cc w = (Some e, cc, w)"
  by (simp add: End_def)

lemma End_not_assembled:
  "err cc = None \<Longrightarrow> makeRequest env cc = Inl e \<Longrightarrow> End env cc w = (Some e, cc\<lparr>err := Some e\<rparr>, w)"
  by (simp add: End_def)

lemma End_not_sent:
  "err cc = None \<Longrightarrow> makeRequest env cc = Inr req \<Longrightarrow>
   client_Do env ((client cc)\<lparr>Transport_set := True\<rparr>)
     ((transport cc)\<lparr>transport_Proxy := proxy cc\<rparr>) req w = (Inl e, sent, w1) \<Longrightarrow>
   End env cc w =
     (Some e,
      cc\<lparr>lastRequest := Some sent,
         transport := (transport cc)\<lparr>transport_Proxy := proxy cc\<rparr>,
         client := (client cc)\<lparr>Transport_set := True\<rparr>,
         err := Some e\<rparr>,
      w1)"
  by (simp add: End_def)

lemma End_not_read:
  "err cc = None \<Longrightarrow> makeRequest env cc = Inr req \<Longrightarrow>
   client_Do env ((client cc)\<lparr>Transport_set := True\<rparr>)
     ((transport cc)\<lparr>transport_Proxy := proxy cc\<rparr>) req w = (Inr resp, sent, w1) \<Longrightarrow>
   io_ReadAll env resp w1 = ((body, Some e), w2) \<Longrightarrow>
   End env cc w =
     (Some e,
      cc\<lparr>lastRequest := Some sent,
         transport := (transport cc)\<lparr>transport_Proxy := proxy cc\<rparr>,
         client := (client cc)\<lparr>Transport_set := True\<rparr>,
         lastResponse := Some resp,
         err := Some e\<rparr>,
      Body_Close env resp w2)"
  by (simp add: End_def)

lemma End_success:
  "err cc = None \<Longrightarrow> makeRequest env cc = Inr req \<Longrightarrow>
   client_Do env ((client cc)\<lparr>Transport_set := True\<rparr>)
     ((transport cc)\<lparr>transport_Proxy := proxy cc\<rparr>) req w = (Inr resp, sent, w1) \<Longrightarrow>
   io_ReadAll env resp w1 = ((body, None), w2) \<Longrightarrow>
   End env cc w =
     (None,
      cc\<lparr>lastRequest := Some sent,
         transport := (transport cc)\<lparr>transport_Proxy := proxy cc\<rparr>,
         client := (client cc)\<lparr>Transport_set := True\<rparr>,
         lastResponse := Some resp,
         rawRespBody := body,
         respStatusCode := StatusCode resp,
         respHeaders := resp_Header resp,
         contentLength := ContentLength resp\<rparr>,
      Body_Close env resp w2)"
  by (simp add: End_def)

text \<open>The five ways \<open>End\<close> can go.\<close>

lemma End_cases [case_names pending not_assembled not_sent not_read success]:
  fixes env :: "'w stdlib"
  assumes "\<And>e. err cc = Some e \<Longrightarrow> P"
    and "\<And>e. err cc = None \<Longrightarrow> makeRequest env cc = Inl e \<Longrightarrow> P"
    and "\<And>req e sent w1. err cc = None \<Longrightarrow> makeRequest env cc = Inr req \<Longrightarrow>
           client_Do env ((client cc)\<lparr>Transport_set := True\<rparr>)
             ((transport cc)\<lparr>transport_Proxy := proxy cc\<rparr>) req w = (Inl e, sent, w1) \<Longrightarrow> P"
    and "\<And>req resp sent w1 body e w2. err cc = None \<Longrightarrow> makeRequest env cc = Inr req \<Longrightarrow>
           client_Do env ((client cc)\<lparr>Transport_set := True\<rparr>)
             ((transport cc)\<lparr>transport_Proxy := proxy cc\<rparr>) req w = (Inr resp, sent, w1) \<Longrightarrow>
           io_ReadAll env resp w1 = ((body, Some e), w2) \<Longrightarrow> P"
    and "\<And>req resp sent w1 body w2. err cc = None \<Longrightarrow> makeRequest env cc = Inr req \<Longrightarrow>
           client_Do env ((client cc)\<lparr>Transport_set := True\<rparr>)
             ((transport cc)\<lparr>transport_Proxy := proxy cc\<rparr>) req w = (Inr resp, sent, w1) \<Longrightarrow>
           io_ReadAll env resp w1 = ((body, None), w2) \<Longrightarrow> P"
  shows P
proof (cases "err cc")
  case (Some e)
  then show ?thesis by (rule assms(1))
next
  case None
  show ?thesis
  proof (cases "makeRequest env cc")
    case (Inl e)
    with None show ?thesis by (rule assms(2))
  next
    case (Inr req)
    obtain res sent w1 where sent: "client_Do env ((client cc)\<lparr>Transport_set := True\<rparr>)
             ((transport cc)\<lparr>transport_Proxy := proxy cc\<rparr>) req w = (res, sent, w1)"
      by (metis surj_pair)
    show ?thesis
    proof (cases res)
      case (Inl e)
      with None Inr sent show ?thesis by (simp add: assms(3))
    next
      case resp: (Inr resp)
      obtain body oe w2 where read: "io_ReadAll env resp w1 = ((body, oe), w2)"
        by (metis surj_pair)
      show ?thesis
      proof (cases oe)
        case None' : None
        with None Inr sent resp read show ?thesis using assms(5) by simp
      next
        case (Some e)
        with None Inr sent resp read show ?thesis using assms(4) by simp
      qed
    qed
  qed
qed

text \<open>
  C1. When an error is pending, \<open>End()\<close> returns that error at once: the builder is the
  one it was given and the world is untouched, so the transport has not been called. A
  \<open>Proxy\<close> call whose URL does not parse is one way to get there: it stores the parse
  error and leaves the proxy resolver as it was, and the \<open>End()\<close> that follows returns
  that error.
\<close>

theorem End_returns_pending_error:
  "(err cc = Some e \<longrightarrow> End env cc w = (Some e, cc, w))
   \<and> (url_Parse env proxyUrl = Inl e' \<longrightarrow>
        Proxy env proxyUrl cb = cb\<lparr>err := Some e'\<rparr>
        \<and> proxy (Proxy env proxyUrl cb) = proxy cb
        \<and> End env (Proxy env proxyUrl cb) w = (Some e', Proxy env proxyUrl cb, w))"
  by (simp add: End_def Proxy_def)

text \<open>
  On a new builder, \<open>Proxy\<close> with a URL that holds a line feed: the error is pending, no
  resolver is stored, and \<open>End()\<close> returns the error with the stub's call log still empty.
\<close>

theorem End_returns_pending_error_witness:
  "url_Parse stub bad_url = Inl (errorString ''net/url: invalid control character in URL'')
   \<and> err (Proxy stub bad_url New) = Some (errorString ''net/url: invalid control character in URL'')
   \<and> proxy (Proxy stub bad_url New) = None
   \<and> End stub (Proxy stub bad_url New) []
       = (Some (errorString ''net/url: invalid control character in URL''),
          Proxy stub bad_url New, [])"
proof -
  have rejected: "url_Parse stub bad_url
      = Inl (errorString ''net/url: invalid control character in URL'')"
    by (simp add: stub_defs bad_url_def)
  have pending: "err (Proxy stub bad_url New)
      = Some (errorString ''net/url: invalid control character in URL'')"
    by (simp add: Proxy_def rejected)
  have unset: "proxy New = None"
    by (simp add: New_def)
  from rejected pending unset show ?thesis
    using End_returns_pending_error
      [where cc = "Proxy stub bad_url New" and cb = New and env = stub and w = "[]"
         and proxyUrl = bad_url
         and e = "errorString ''net/url: invalid control character in URL''"
         and e' = "errorString ''net/url: invalid control character in URL''"]
    by metis
qed

text \<open>
  C2, as the claim states it, fails: when request assembly fails, \<open>End()\<close> does not
  store nil as the last request. After a successful request, \<open>ClearRequestData().End()\<close>
  fails with "no method specified" and the last request is still the earlier one.
\<close>

theorem End_assembly_failure_counterexample:
  "err (ClearRequestData served) = None \<and> method (ClearRequestData served) = []
   \<and> fst (End stub (ClearRequestData served) [request_a]) = Some (errorString ''no method specified'')
   \<and> lastRequest (fst (snd (End stub (ClearRequestData served) [request_a]))) = Some request_a
   \<and> lastRequest (fst (snd (End stub (ClearRequestData served) [request_a]))) \<noteq> None"
  by (simp add: End_def makeRequest_def ClearRequestData_def served_def New_def)

text \<open>
  C2, amended. When \<open>End()\<close> is called with no pending error and an empty method or an
  empty url, request assembly fails with "no method specified" (empty method) or "no url
  specified" (method set, empty url); \<open>End()\<close> stores that error as the sticky error and
  returns it, and changes nothing else: the last request, the last response and the
  response snapshot are as before, and the transport is not called.
\<close>

theorem End_assembly_failure:
  assumes "err cc = None" and "method cc = [] \<or> url cc = []"
    and "e = (if method cc = [] then errorString ''no method specified''
              else errorString ''no url specified'')"
  shows "makeRequest env cc = Inl e
         \<and> End env cc w = (Some e, cc\<lparr>err := Some e\<rparr>, w)
         \<and> err (fst (snd (End env cc w))) = Some e
         \<and> lastRequest (fst (snd (End env cc w))) = lastRequest cc
         \<and> lastResponse (fst (snd (End env cc w))) = lastResponse cc
         \<and> snapshot (fst (snd (End env cc w))) = snapshot cc"
  using assms by (auto simp add: End_def makeRequest_def snapshot_def)

theorem End_assembly_failure_witness:
  "err (ClearRequestData served) = None
   \<and> (method (ClearRequestData served) = [] \<or> url (ClearRequestData served) = [])
   \<and> makeRequest stub (ClearRequestData served) = Inl (errorString ''no method specified'')
   \<and> End stub (ClearRequestData served) [request_a]
       = (Some (errorString ''no method specified''),
          (ClearRequestData served)\<lparr>err := Some (errorString ''no method specified'')\<rparr>,
          [request_a])
   \<and> lastRequest (fst (snd (End stub (ClearRequestData served) [request_a]))) = Some request_a
   \<and> lastResponse (fst (snd (End stub (ClearRequestData served) [request_a]))) = Some response_ok
   \<and> snapshot (fst (snd (End stub (ClearRequestData served) [request_a]))) = snapshot served"
  using End_assembly_failure
    [where cc = "ClearRequestData served" and env = stub and w = "[request_a]"
       and e = "errorString ''no method specified''"]
  by (simp add: ClearRequestData_def served_def New_def snapshot_def)

text \<open>
  C3. \<open>End()\<close> writes the response snapshot only when the execution fully succeeds. If
  the snapshot after the call differs from the one before, or if \<open>End()\<close> returns no
  error, then no error was pending, the request was built, the transport answered and
  the body was read to its end; whenever \<open>End()\<close> returns an error the snapshot is the
  one before the call. Path by path: with an error pending or a request that cannot be
  built, the snapshot and the last response are the ones before the call. When the
  transport fails, they are also the ones before the call. When the transport answers
  and reading the body fails, the snapshot is still the one before the call, and the
  last response is already the new response. On success the snapshot is the new
  response's status code, headers and content length, with the body that was read. Here
  \<open>c\<close> and \<open>t\<close> are the client and the transport as \<open>End()\<close> hands them to \<open>client.Do\<close>,
  and \<open>sent\<close> is the request as \<open>client.Do\<close> leaves it, which is the stored last request.
\<close>

theorem End_snapshot_only_on_success:
  assumes "End env cc w = (r, cc', w')"
    and "c = (client cc)\<lparr>Transport_set := True\<rparr>"
    and "t = (transport cc)\<lparr>transport_Proxy := proxy cc\<rparr>"
  shows "(r \<noteq> None \<longrightarrow> snapshot cc' = snapshot cc)
   \<and> (snapshot cc' \<noteq> snapshot cc \<or> r = None \<longrightarrow>
        err cc = None
        \<and> (\<exists>rq rs sn v1 b v2.
              makeRequest env cc = Inr rq \<and> client_Do env c t rq w = (Inr rs, sn, v1)
              \<and> io_ReadAll env rs v1 = ((b, None), v2)
              \<and> r = None \<and> lastResponse cc' = Some rs
              \<and> snapshot cc' = (StatusCode rs, resp_Header rs, b, ContentLength rs)))
   \<and> (err cc = Some e \<longrightarrow>
        r = Some e \<and> lastResponse cc' = lastResponse cc \<and> snapshot cc' = snapshot cc)
   \<and> (err cc = None \<and> makeRequest env cc = Inl e \<longrightarrow>
        r = Some e \<and> err cc' = Some e
        \<and> lastResponse cc' = lastResponse cc \<and> snapshot cc' = snapshot cc)
   \<and> (err cc = None \<and> makeRequest env cc = Inr req
        \<and> client_Do env c t req w = (Inl e, sent, w1) \<longrightarrow>
        r = Some e \<and> err cc' = Some e \<and> lastRequest cc' = Some sent
        \<and> lastResponse cc' = lastResponse cc \<and> snapshot cc' = snapshot cc)
   \<and> (err cc = None \<and> makeRequest env cc = Inr req
        \<and> client_Do env c t req w = (Inr resp, sent, w1)
        \<and> io_ReadAll env resp w1 = ((body, Some e), w2) \<longrightarrow>
        r = Some e \<and> err cc' = Some e \<and> lastRequest cc' = Some sent
        \<and> lastResponse cc' = Some resp \<and> snapshot cc' = snapshot cc)
   \<and> (err cc = None \<and> makeRequest env cc = Inr req
        \<and> client_Do env c t req w = (Inr resp, sent, w1)
        \<and> io_ReadAll env resp w1 = ((body, None), w2) \<longrightarrow>
        r = None \<and> err cc' = None \<and> lastRequest cc' = Some sent
        \<and> lastResponse cc' = Some resp
        \<and> snapshot cc' = (StatusCode resp, resp_Header resp, body, ContentLength resp))"
proof (cases rule: End_cases [where env = env and cc = cc and w = w])
  case (pending e0)
  from End_pending [OF pending, of env w] assms(1) have "r = Some e0" "cc' = cc"
    by simp_all
  with pending show ?thesis by simp
next
  case (not_assembled e0)
  with assms(1) show ?thesis by (auto simp add: End_not_assembled snapshot_def)
next
  case (not_sent req0 e0 sent0 w0)
  with assms show ?thesis by (auto simp add: End_not_sent snapshot_def)
next
  case (not_read req0 resp0 sent0 w0 body0 e0 w20)
  with assms show ?thesis by (auto simp add: End_not_read snapshot_def)
next
  case (success req0 resp0 sent0 w0 body0 w20)
  with assms show ?thesis by (auto simp add: End_success snapshot_def)
qed

text \<open>
  Against the stub, from the builder that has served \<open>http://a\<close>: a request to
  \<open>http://down\<close> (the transport fails) and a request to \<open>http://broken\<close> (the body read
  fails) both leave the snapshot of the first request, the second with the new response
  stored; the first request itself, on a new builder, replaces the empty snapshot.
\<close>

theorem End_snapshot_only_on_success_witness:
  "fst (End stub (Get ''http://down'' served) [request_a]) = Some (errorString ''connection refused'')
   \<and> lastResponse (fst (snd (End stub (Get ''http://down'' served) [request_a]))) = Some response_ok
   \<and> snapshot (fst (snd (End stub (Get ''http://down'' served) [request_a]))) = snapshot served
   \<and> fst (End stub (Get ''http://broken'' served) [request_a]) = Some (errorString ''unexpected EOF'')
   \<and> lastResponse (fst (snd (End stub (Get ''http://broken'' served) [request_a])))
        = Some (response_ok\<lparr>resp_Body := 1\<rparr>)
   \<and> snapshot (fst (snd (End stub (Get ''http://broken'' served) [request_a]))) = snapshot served
   \<and> fst (End stub (Get ''http://a'' New) []) = None
   \<and> lastResponse (fst (snd (End stub (Get ''http://a'' New) []))) = Some response_ok
   \<and> snapshot (fst (snd (End stub (Get ''http://a'' New) [])))
        = (200, [(''Content-Type'', [''text/plain''])], [0x6F, 0x6B], 2)
   \<and> snapshot New = (0, [], [], 0)
   \<and> fst (End stub (Proxy stub bad_url served) [request_a])
        = Some (errorString ''net/url: invalid control character in URL'')
   \<and> snapshot (fst (snd (End stub (Proxy stub bad_url served) [request_a]))) = snapshot served
   \<and> fst (End stub (ClearRequestData served) [request_a]) = Some (errorString ''no method specified'')
   \<and> snapshot (fst (snd (End stub (ClearRequestData served) [request_a]))) = snapshot served"
proof -
  let ?down = "request_a\<lparr>req_URL := URL ''http://down''\<rparr>"
  let ?broken = "request_a\<lparr>req_URL := URL ''http://broken''\<rparr>"
  let ?c = "\<lparr>Transport_set = True\<rparr>"
  let ?t = "\<lparr>DisableKeepAlives = True, transport_Proxy = None\<rparr>"
  let ?bad = "errorString ''net/url: invalid control character in URL''"
  have c: "(client (Get u served))\<lparr>Transport_set := True\<rparr> = ?c"
    and t: "(transport (Get u served))\<lparr>transport_Proxy := proxy (Get u served)\<rparr> = ?t"
    and c0: "(client (Get u New))\<lparr>Transport_set := True\<rparr> = ?c"
    and t0: "(transport (Get u New))\<lparr>transport_Proxy := proxy (Get u New)\<rparr> = ?t"
    and no_err: "err (Get u served) = None" "err (Get u New) = None"
    and last: "lastResponse (Get u served) = Some response_ok" for u
    by (simp_all add: call_defs served_def New_def)
  have made: "makeRequest stub (Get ''http://down'' served) = Inr ?down"
    "makeRequest stub (Get ''http://broken'' served) = Inr ?broken"
    "makeRequest stub (Get ''http://a'' New) = Inr request_a"
    by (simp_all add: makeRequest_def http_NewRequest_def copy_headers_def stub_defs call_defs
        served_def New_def request_a_def emptyAuth_def)
  have sent: "client_Do stub ?c ?t ?down [request_a]
        = (Inl (errorString ''connection refused''), ?down, [request_a, ?down])"
    "client_Do stub ?c ?t ?broken [request_a]
        = (Inr (response_ok\<lparr>resp_Body := 1\<rparr>), ?broken, [request_a, ?broken])"
    "client_Do stub ?c ?t request_a [] = (Inr response_ok, request_a, [request_a])"
    by (simp_all add: stub_defs request_a_def response_ok_def)
  have read: "io_ReadAll stub (response_ok\<lparr>resp_Body := 1\<rparr>) [request_a, ?broken]
        = (([0x6F], Some (errorString ''unexpected EOF'')), [request_a, ?broken])"
    "io_ReadAll stub response_ok [request_a] = (([0x6F, 0x6B], None), [request_a])"
    by (simp_all add: stub_defs response_ok_def)
  have snap: "snapshot (Get u served) = snapshot served" "snapshot New = (0, [], [], 0)"
    "StatusCode response_ok = 200" "resp_Header response_ok = [(''Content-Type'', [''text/plain''])]"
    "ContentLength response_ok = 2" for u
    by (simp_all add: snapshot_def call_defs New_def response_ok_def)
  have split: "End stub cc w = (fst (End stub cc w), fst (snd (End stub cc w)), snd (snd (End stub cc w)))"
    for cc w
    by simp
  have down: "fst (End stub (Get ''http://down'' served) [request_a]) = Some (errorString ''connection refused'')
     \<and> lastResponse (fst (snd (End stub (Get ''http://down'' served) [request_a]))) = Some response_ok
     \<and> snapshot (fst (snd (End stub (Get ''http://down'' served) [request_a]))) = snapshot served"
    using End_snapshot_only_on_success
      [OF split c [symmetric] t [symmetric], where req = ?down
         and e = "errorString ''connection refused''" and sent = ?down
         and ?w1.0 = "[request_a, ?down]"]
      no_err made sent last snap
    by simp
  have broken: "fst (End stub (Get ''http://broken'' served) [request_a]) = Some (errorString ''unexpected EOF'')
     \<and> lastResponse (fst (snd (End stub (Get ''http://broken'' served) [request_a])))
          = Some (response_ok\<lparr>resp_Body := 1\<rparr>)
     \<and> snapshot (fst (snd (End stub (Get ''http://broken'' served) [request_a]))) = snapshot served"
    using End_snapshot_only_on_success
      [OF split c [symmetric] t [symmetric], where req = ?broken
         and e = "errorString ''unexpected EOF''" and sent = ?broken
         and ?w1.0 = "[request_a, ?broken]"
         and resp = "response_ok\<lparr>resp_Body := 1\<rparr>" and body = "[0x6F]"
         and ?w2.0 = "[request_a, ?broken]"]
      no_err made sent read snap
    by simp
  have ok: "fst (End stub (Get ''http://a'' New) []) = None
     \<and> lastResponse (fst (snd (End stub (Get ''http://a'' New) []))) = Some response_ok
     \<and> snapshot (fst (snd (End stub (Get ''http://a'' New) [])))
          = (200, [(''Content-Type'', [''text/plain''])], [0x6F, 0x6B], 2)"
    using End_snapshot_only_on_success
      [OF split c0 [symmetric] t0 [symmetric], where req = request_a and sent = request_a
         and ?w1.0 = "[request_a]" and resp = response_ok and body = "[0x6F, 0x6B]"
         and ?w2.0 = "[request_a]"]
      no_err made sent read snap
    by simp
  have pending: "err (Proxy stub bad_url served) = Some ?bad"
    by (simp add: Proxy_def stub_defs bad_url_def)
  have kept: "fst (End stub (Proxy stub bad_url served) [request_a]) = Some ?bad
     \<and> snapshot (fst (snd (End stub (Proxy stub bad_url served) [request_a])))
          = snapshot (Proxy stub bad_url served)"
    using End_snapshot_only_on_success [OF split refl refl, where e = ?bad] pending
    by blast
  have same: "snapshot (Proxy stub bad_url served) = snapshot served"
    "snapshot (ClearRequestData served) = snapshot served"
    by (simp_all add: Proxy_def stub_defs bad_url_def snapshot_def ClearRequestData_def)
  have unbuilt: "err (ClearRequestData served) = None"
    "makeRequest stub (ClearRequestData served) = Inl (errorString ''no method specified'')"
    by (simp_all add: ClearRequestData_def served_def New_def makeRequest_def)
  have failed: "fst (End stub (ClearRequestData served) [request_a]) = Some (errorString ''no method specified'')
     \<and> snapshot (fst (snd (End stub (ClearRequestData served) [request_a])))
          = snapshot (ClearRequestData served)"
    using End_snapshot_only_on_success
      [OF split refl refl, where e = "errorString ''no method specified''"] unbuilt
    by blast
  from down broken ok snap kept failed same show ?thesis
    by simp
qed

section \<open>The one-shot executor \<open>Do\<close>\<close>






section \<open>Method-selection calls\<close>

text \<open>
  C4. Each of \<open>Get\<close>, \<open>Post\<close>, \<open>Put\<close>, \<open>Delete\<close>, \<open>Head\<close>, \<open>Patch\<close> and \<open>Options\<close>
  empties the headers, the basic-auth credentials, the body and the sticky error and
  sets its method and the url; it changes no other field, so the cookie list and the
  proxy resolver stay. The request assembled next carries the pending cookies and
  nothing else in its header and has an empty body. \<open>End()\<close> hands that request to
  \<open>client.Do\<close> together with the transport that carries the proxy set before the call,
  and the last request it stores is that request as \<open>client.Do\<close> leaves it.
\<close>

theorem method_selection_resets:
  assumes "(f, m) \<in> set method_selection_calls"
  shows "f u cc = cc\<lparr>url := u, method := m, headers := [], basicAuth := emptyAuth,
                      rawBody := [], err := None\<rparr>
   \<and> method (f u cc) = m \<and> url (f u cc) = u \<and> headers (f u cc) = []
   \<and> basicAuth (f u cc) = emptyAuth \<and> rawBody (f u cc) = [] \<and> err (f u cc) = None
   \<and> cookies (f u cc) = cookies cc \<and> proxy (f u cc) = proxy cc
   \<and> (u \<noteq> [] \<and> NewRequest_check env m u = Inr pu \<longrightarrow>
        makeRequest env (f u cc)
          = Inr (fold (Request_AddCookie env) (cookies cc)
                  \<lparr>req_Method = m, req_URL = pu, req_Header = [], req_Body = []\<rparr>))
   \<and> (u \<noteq> [] \<and> NewRequest_check env m u = Inr pu \<and> End env (f u cc) w = (r, cc', w') \<longrightarrow>
        transport_Proxy (transport cc') = proxy cc
        \<and> lastRequest cc'
          = Some (fst (snd (client_Do env ((client cc)\<lparr>Transport_set := True\<rparr>)
                     ((transport cc)\<lparr>transport_Proxy := proxy cc\<rparr>)
                     (fold (Request_AddCookie env) (cookies cc)
                        \<lparr>req_Method = m, req_URL = pu, req_Header = [], req_Body = []\<rparr>)
                     w))))"
proof -
  let ?rq = "fold (Request_AddCookie env) (cookies cc)
                  \<lparr>req_Method = m, req_URL = pu, req_Header = [], req_Body = []\<rparr>"
  have sel: "f u cc = cc\<lparr>url := u, method := m, headers := [], basicAuth := emptyAuth,
                      rawBody := [], err := None\<rparr>" and m: "m \<noteq> []"
    using assms by (auto simp add: method_selection_calls_def call_defs)
  have made: "makeRequest env (f u cc) = Inr ?rq"
    if "u \<noteq> []" "NewRequest_check env m u = Inr pu"
    using that m by (simp add: sel makeRequest_def http_NewRequest_def copy_headers_def)
  have fields: "err (f u cc) = None" "client (f u cc) = client cc"
    "transport (f u cc) = transport cc" "proxy (f u cc) = proxy cc"
    by (simp_all add: sel)
  have ended: "transport_Proxy (transport cc') = proxy cc
        \<and> lastRequest cc'
          = Some (fst (snd (client_Do env ((client cc)\<lparr>Transport_set := True\<rparr>)
                     ((transport cc)\<lparr>transport_Proxy := proxy cc\<rparr>) ?rq w)))"
    if "u \<noteq> []" "NewRequest_check env m u = Inr pu" "End env (f u cc) w = (r, cc', w')"
  proof (cases rule: End_cases [where env = env and cc = "f u cc" and w = w])
    case (pending e0)
    with fields show ?thesis by simp
  next
    case (not_assembled e0)
    with made [OF that(1,2)] show ?thesis by simp
  next
    case (not_sent req0 e0 sent0 w0)
    with that(3) made [OF that(1,2)] fields show ?thesis
      by (auto simp add: End_not_sent)
  next
    case (not_read req0 resp0 sent0 w0 body0 e0 w20)
    with that(3) made [OF that(1,2)] fields show ?thesis
      by (auto simp add: End_not_read)
  next
    case (success req0 resp0 sent0 w0 body0 w20)
    with that(3) made [OF that(1,2)] fields show ?thesis
      by (auto simp add: End_success)
  qed
  show ?thesis
    using made ended by (simp add: sel)
qed

text \<open>The fields of \<open>configured\<close>.\<close>

lemma configured_eq:
  "configured =
     New\<lparr>url := ''http://a'', method := ''POST'', headers := [(''X-Trace'', [''1''])],
         cookies := [session_cookie], basicAuth := \<lparr>Username = ''u'', Password = ''p''\<rparr>,
         rawBody := [0x7B, 0x7D], proxy := Some (http_ProxyURL (URL ''http://proxy:8080''))\<rparr>"
  by (simp add: configured_def AddCookies_def Proxy_def SetBasicAuth_def SetHeader_def
      Header_Set_def Payload_def call_defs New_def stub_defs)

text \<open>
  \<open>Get("http://shop")\<close> on the configured builder: header, credentials and body are
  gone, the cookie and the proxy are still there, and the assembled request carries the
  cookie. After \<open>End()\<close> the transport has the proxy, and the stored last request
  carries the jar's cookie as well.
\<close>

theorem method_selection_resets_witness:
  "(Get, GET) \<in> set method_selection_calls
   \<and> headers configured = [(''X-Trace'', [''1''])]
   \<and> basicAuth configured = \<lparr>Username = ''u'', Password = ''p''\<rparr>
   \<and> rawBody configured = [0x7B, 0x7D]
   \<and> method (Get ''http://shop'' configured) = ''GET''
   \<and> url (Get ''http://shop'' configured) = ''http://shop''
   \<and> headers (Get ''http://shop'' configured) = []
   \<and> basicAuth (Get ''http://shop'' configured) = emptyAuth
   \<and> rawBody (Get ''http://shop'' configured) = []
   \<and> err (Get ''http://shop'' configured) = None
   \<and> cookies (Get ''http://shop'' configured) = [session_cookie]
   \<and> proxy (Get ''http://shop'' configured) = Some (http_ProxyURL (URL ''http://proxy:8080''))
   \<and> makeRequest stub (Get ''http://shop'' configured)
       = Inr \<lparr>req_Method = ''GET'', req_URL = URL ''http://shop'',
              req_Header = [(''Cookie'', [''sid=42''])], req_Body = []\<rparr>
   \<and> transport_Proxy (transport (fst (snd (End stub (Get ''http://shop'' configured) []))))
       = Some (http_ProxyURL (URL ''http://proxy:8080''))
   \<and> lastRequest (fst (snd (End stub (Get ''http://shop'' configured) [])))
       = Some \<lparr>req_Method = ''GET'', req_URL = URL ''http://shop'',
               req_Header = [(''Cookie'', [''sid=42; j=1''])], req_Body = []\<rparr>"
proof -
  let ?rq = "\<lparr>req_Method = ''GET'', req_URL = URL ''http://shop'',
              req_Header = [(''Cookie'', [''sid=42''])], req_Body = []\<rparr>"
  let ?sent = "\<lparr>req_Method = ''GET'', req_URL = URL ''http://shop'',
               req_Header = [(''Cookie'', [''sid=42; j=1''])], req_Body = []\<rparr>"
  have sel: "(Get, GET) \<in> set method_selection_calls"
    by (simp add: method_selection_calls_def)
  have chk: "''http://shop'' \<noteq> [] \<and> NewRequest_check stub GET ''http://shop'' = Inr (URL ''http://shop'')"
    by (simp add: stub_defs)
  have split: "End stub cc w = (fst (End stub cc w), fst (snd (End stub cc w)), snd (snd (End stub cc w)))"
    for cc w
    by simp
  have cookie: "fold (Request_AddCookie stub) [session_cookie]
       \<lparr>req_Method = GET, req_URL = URL ''http://shop'', req_Header = [], req_Body = []\<rparr> = ?rq"
    by (simp add: Request_AddCookie_def Header_Get_def Header_Set_def Header_values_def
        session_cookie_def stub_defs GET_def)
  have before: "headers configured = [(''X-Trace'', [''1''])]"
    "basicAuth configured = \<lparr>Username = ''u'', Password = ''p''\<rparr>"
    "rawBody configured = [0x7B, 0x7D]" "cookies configured = [session_cookie]"
    "proxy configured = Some (http_ProxyURL (URL ''http://proxy:8080''))"
    by (simp_all add: configured_eq New_def)
  have sent: "fst (snd (client_Do stub ((client configured)\<lparr>Transport_set := True\<rparr>)
       ((transport configured)\<lparr>transport_Proxy := proxy configured\<rparr>) ?rq [])) = ?sent"
    by (simp add: stub_defs jar_cookie_def Request_AddCookie_def Header_Get_def Header_Set_def
        Header_values_def)
  note inst = method_selection_resets
      [OF sel, where u = "''http://shop''" and cc = configured and env = stub
         and pu = "URL ''http://shop''" and w = "[]"
         and r = "fst (End stub (Get ''http://shop'' configured) [])"
         and cc' = "fst (snd (End stub (Get ''http://shop'' configured) []))"
         and w' = "snd (snd (End stub (Get ''http://shop'' configured) []))"]
  from inst chk split [of "Get ''http://shop'' configured" "[]"]
  have "method (Get ''http://shop'' configured) = GET
   \<and> url (Get ''http://shop'' configured) = ''http://shop''
   \<and> headers (Get ''http://shop'' configured) = []
   \<and> basicAuth (Get ''http://shop'' configured) = emptyAuth
   \<and> rawBody (Get ''http://shop'' configured) = []
   \<and> err (Get ''http://shop'' configured) = None
   \<and> cookies (Get ''http://shop'' configured) = cookies configured
   \<and> proxy (Get ''http://shop'' configured) = proxy configured
   \<and> makeRequest stub (Get ''http://shop'' configured)
       = Inr (fold (Request_AddCookie stub) (cookies configured)
           \<lparr>req_Method = GET, req_URL = URL ''http://shop'', req_Header = [], req_Body = []\<rparr>)
   \<and> transport_Proxy (transport (fst (snd (End stub (Get ''http://shop'' configured) []))))
       = proxy configured
   \<and> lastRequest (fst (snd (End stub (Get ''http://shop'' configured) [])))
       = Some (fst (snd (client_Do stub ((client configured)\<lparr>Transport_set := True\<rparr>)
                     ((transport configured)\<lparr>transport_Proxy := proxy configured\<rparr>)
                     (fold (Request_AddCookie stub) (cookies configured)
                        \<lparr>req_Method = GET, req_URL = URL ''http://shop'', req_Header = [],
                         req_Body = []\<rparr>)
                     [])))"
    by blast
  with sel before cookie sent show ?thesis
    by (simp add: GET_def)
qed

text \<open>
  C9, as the claim states it, fails: a method-selection call does not overwrite the last
  request and the last response, and an \<open>End()\<close> that returns a pending error overwrites
  neither. After a request to \<open>http://a\<close> has been served, \<open>Get("http://b")\<close> leaves
  that request and its response stored, and so does \<open>Proxy\<close> with a bad URL followed by
  \<open>End()\<close>.
\<close>

theorem overwrite_counterexample:
  "lastRequest served = Some request_a \<and> lastResponse served = Some response_ok
   \<and> lastRequest (Get ''http://b'' served) = Some request_a
   \<and> lastResponse (Get ''http://b'' served) = Some response_ok
   \<and> req_URL request_a = URL ''http://a''
   \<and> lastRequest (fst (snd (End stub (Proxy stub bad_url served) [request_a]))) = Some request_a
   \<and> lastResponse (fst (snd (End stub (Proxy stub bad_url served) [request_a]))) = Some response_ok"
  by (simp add: call_defs served_def New_def request_a_def End_def Proxy_def stub_defs bad_url_def)

text \<open>
  C9, amended. A method-selection call leaves the last request and the last response as
  they are. \<open>End()\<close> overwrites the last request exactly when no error is pending and
  request assembly succeeds, and the last response exactly when, in addition, the
  transport returns a response; otherwise each keeps the instance it held. The new last
  request is the assembled request as \<open>client.Do\<close> leaves it.
\<close>

theorem last_instances:
  assumes "(f, m) \<in> set method_selection_calls"
    and "End env cc w = (r, cc', w')"
    and "c = (client cc)\<lparr>Transport_set := True\<rparr>"
    and "t = (transport cc)\<lparr>transport_Proxy := proxy cc\<rparr>"
  shows "lastRequest (f u cc) = lastRequest cc \<and> lastResponse (f u cc) = lastResponse cc
   \<and> lastRequest cc' =
       (case err cc of Some e \<Rightarrow> lastRequest cc
        | None \<Rightarrow> (case makeRequest env cc of Inl e \<Rightarrow> lastRequest cc
            | Inr req \<Rightarrow> Some (fst (snd (client_Do env c t req w)))))
   \<and> lastResponse cc' =
       (case err cc of Some e \<Rightarrow> lastResponse cc
        | None \<Rightarrow> (case makeRequest env cc of Inl e \<Rightarrow> lastResponse cc
            | Inr req \<Rightarrow> (case fst (client_Do env c t req w) of
                 Inl e \<Rightarrow> lastResponse cc | Inr resp \<Rightarrow> Some resp)))"
proof -
  have kept: "lastRequest (f u cc) = lastRequest cc \<and> lastResponse (f u cc) = lastResponse cc"
    using assms(1) by (auto simp add: method_selection_calls_def call_defs)
  show ?thesis
  proof (cases rule: End_cases [where env = env and cc = cc and w = w])
    case (pending e0)
    from End_pending [OF pending, of env w] assms(2) have "r = Some e0" "cc' = cc"
      by simp_all
    with pending kept show ?thesis by simp
  next
    case (not_assembled e0)
    with assms(2) kept show ?thesis by (auto simp add: End_not_assembled)
  next
    case (not_sent req0 e0 sent0 w0)
    with assms(2-) kept show ?thesis by (auto simp add: End_not_sent)
  next
    case (not_read req0 resp0 sent0 w0 body0 e0 w20)
    with assms(2-) kept show ?thesis by (auto simp add: End_not_read)
  next
    case (success req0 resp0 sent0 w0 body0 w20)
    with assms(2-) kept show ?thesis by (auto simp add: End_success)
  qed
qed

text \<open>
  From the builder that has served \<open>http://a\<close>: \<open>Get("http://down")\<close> keeps both
  instances, and the \<open>End()\<close> that follows, whose transport fails, stores the new request
  and keeps the old response.
\<close>

theorem last_instances_witness:
  "(Get, GET) \<in> set method_selection_calls
   \<and> lastRequest (Get ''http://down'' served) = Some request_a
   \<and> lastResponse (Get ''http://down'' served) = Some response_ok
   \<and> lastRequest (fst (snd (End stub (Get ''http://down'' served) [request_a])))
       = Some (request_a\<lparr>req_URL := URL ''http://down''\<rparr>)
   \<and> lastResponse (fst (snd (End stub (Get ''http://down'' served) [request_a])))
       = Some response_ok"
proof -
  let ?down = "request_a\<lparr>req_URL := URL ''http://down''\<rparr>"
  let ?c = "\<lparr>Transport_set = True\<rparr>"
  let ?t = "\<lparr>DisableKeepAlives = True, transport_Proxy = None\<rparr>"
  let ?cc = "Get ''http://down'' served"
  have sel: "(Get, GET) \<in> set method_selection_calls"
    by (simp add: method_selection_calls_def)
  have split: "End stub cc w = (fst (End stub cc w), fst (snd (End stub cc w)), snd (snd (End stub cc w)))"
    for cc w
    by simp
  have c: "?c = (client ?cc)\<lparr>Transport_set := True\<rparr>"
    and t: "?t = (transport ?cc)\<lparr>transport_Proxy := proxy ?cc\<rparr>"
    and c': "?c = (client served)\<lparr>Transport_set := True\<rparr>"
    and t': "?t = (transport served)\<lparr>transport_Proxy := proxy served\<rparr>"
    and no_err: "err ?cc = None"
    by (simp_all add: call_defs served_def New_def)
  have was: "lastRequest served = Some request_a" "lastResponse served = Some response_ok"
    by (simp_all add: served_def)
  have made: "makeRequest stub ?cc = Inr ?down"
    by (simp add: makeRequest_def http_NewRequest_def copy_headers_def stub_defs call_defs
        served_def New_def request_a_def emptyAuth_def)
  have sent: "client_Do stub ?c ?t ?down [request_a]
      = (Inl (errorString ''connection refused''), ?down, [request_a, ?down])"
    by (simp add: stub_defs request_a_def)
  have kept: "lastRequest ?cc = Some request_a \<and> lastResponse ?cc = Some response_ok"
    using last_instances [OF sel split c' t', where u = "''http://down''" and w = "[]"] was
    by simp
  have ended: "lastRequest (fst (snd (End stub ?cc [request_a]))) = Some ?down
     \<and> lastResponse (fst (snd (End stub ?cc [request_a]))) = Some response_ok"
    using last_instances [OF sel split c t, where u = "''http://down''" and w = "[request_a]"]
      no_err made sent kept
    by simp
  from sel kept ended show ?thesis
    by blast
qed

section \<open>Headers on the assembled request\<close>

text \<open>What \<open>Header.Set\<close>, \<open>Header.Add\<close> and the copying loops do to the value list of a key.\<close>

lemma Header_values_Set:
  "Header_values (Header_Set env key val h) c
     = (if CanonicalMIMEHeaderKey env key = c then [val] else Header_values h c)"
  by (simp add: Header_values_def Header_Set_def update_conv')

lemma Header_values_Add:
  "Header_values (Header_Add env key val h) c
     = (if CanonicalMIMEHeaderKey env key = c then Header_values h c @ [val]
        else Header_values h c)"
  by (simp add: Header_values_def Header_Add_def update_conv' Let_def)

lemma Header_values_add_all:
  "Header_values
     (req_Header (fold (\<lambda>val r'. r'\<lparr>req_Header := Header_Add env key val (req_Header r')\<rparr>) vals r)) c
     = Header_values (req_Header r) c @ (if CanonicalMIMEHeaderKey env key = c then vals else [])"
  by (induction vals arbitrary: r) (simp_all add: Header_values_Add)

lemma Header_values_copy_headers:
  "Header_values (req_Header (copy_headers env hs r)) c
     = Header_values (req_Header r) c
       @ concat (map snd (filter (\<lambda>kv. CanonicalMIMEHeaderKey env (fst kv) = c) hs))"
proof (induction hs arbitrary: r)
  case Nil
  then show ?case by (simp add: copy_headers_def)
next
  case (Cons kv hs)
  obtain key vals where kv: "kv = (key, vals)" by (cases kv)
  have "copy_headers env (kv # hs) r
      = copy_headers env hs
          (fold (\<lambda>val r'. r'\<lparr>req_Header := Header_Add env key val (req_Header r')\<rparr>) vals r)"
    by (simp add: copy_headers_def kv)
  then show ?case
    by (simp add: Cons.IH Header_values_add_all kv)
qed

lemma concat_filter_key:
  "distinct (map fst hs) \<Longrightarrow>
   concat (map snd (filter (\<lambda>kv. fst kv = c) hs)) = Header_values hs c"
proof (induction hs)
  case Nil
  then show ?case by (simp add: Header_values_def)
next
  case (Cons kv hs)
  show ?case
  proof (cases "fst kv = c")
    case True
    from Cons.prems have "fst kv \<notin> fst ` set hs"
      by simp
    with True have "filter (\<lambda>kv. fst kv = c) hs = []"
      by (auto simp add: filter_empty_conv intro: rev_image_eqI)
    with True show ?thesis
      by (cases kv) (simp add: Header_values_def)
  next
    case False
    with Cons show ?thesis
      by (cases kv) (simp add: Header_values_def)
  qed
qed

lemma canonical_keys_values:
  assumes "canonical_keys env hs" and "CanonicalMIMEHeaderKey env c = c"
  shows "concat (map snd (filter (\<lambda>kv. CanonicalMIMEHeaderKey env (fst kv) = c) hs))
           = Header_values hs c"
proof -
  have "filter (\<lambda>kv. CanonicalMIMEHeaderKey env (fst kv) = c) hs = filter (\<lambda>kv. fst kv = c) hs"
    using assms(1) by (intro filter_cong) (auto simp add: canonical_keys_def list_all_iff)
  with assms(1) show ?thesis
    by (simp add: concat_filter_key canonical_keys_def)
qed

lemma canonical_keys_Nil: "canonical_keys env []"
  by (simp add: canonical_keys_def)

lemma canonical_keys_update:
  assumes "canonical_keys env h" and "CanonicalMIMEHeaderKey env k = k"
  shows "canonical_keys env (AList.update k vs h)"
  using assms
  by (auto simp add: canonical_keys_def list_all_iff distinct_update update_keys)

lemma canonical_keys_Set:
  "CanonicalMIMEHeaderKey env (CanonicalMIMEHeaderKey env key) = CanonicalMIMEHeaderKey env key \<Longrightarrow>
   canonical_keys env h \<Longrightarrow> canonical_keys env (Header_Set env key val h)"
  by (simp add: Header_Set_def canonical_keys_update)

lemma canonical_keys_Add:
  "CanonicalMIMEHeaderKey env (CanonicalMIMEHeaderKey env key) = CanonicalMIMEHeaderKey env key \<Longrightarrow>
   canonical_keys env h \<Longrightarrow> canonical_keys env (Header_Add env key val h)"
  by (simp add: Header_Add_def canonical_keys_update Let_def)

lemma Header_values_AddCookie:
  "c \<noteq> CanonicalMIMEHeaderKey env ''Cookie'' \<Longrightarrow>
   Header_values (req_Header (Request_AddCookie env ck r)) c = Header_values (req_Header r) c"
  by (auto simp add: Request_AddCookie_def Header_values_Set Let_def)

lemma Header_values_AddCookies:
  "c \<noteq> CanonicalMIMEHeaderKey env ''Cookie'' \<Longrightarrow>
   Header_values (req_Header (fold (Request_AddCookie env) cks r)) c = Header_values (req_Header r) c"
  by (induction cks arbitrary: r) (simp_all add: Header_values_AddCookie)

lemma Header_values_SetBasicAuth:
  "Header_values (req_Header (Request_SetBasicAuth env u p r)) c
     = (if CanonicalMIMEHeaderKey env ''Authorization'' = c
        then [''Basic '' @ basicAuth_encode env u p] else Header_values (req_Header r) c)"
  by (simp add: Request_SetBasicAuth_def Header_values_Set)

text \<open>
  The value list of any key on the assembled request: the basic-auth header if the key
  is \<open>Authorization\<close> and credentials are set, and otherwise the values the builder's
  own headers hold under that key. The key \<open>Cookie\<close> is left aside when cookies are
  pending, since \<open>AddCookie\<close> rewrites it.
\<close>

lemma Header_values_Nil: "Header_values [] c = []"
  by (simp add: Header_values_def)

lemma makeRequest_Inr:
  assumes "makeRequest env cc = Inr r"
  shows "\<exists>pu. r = fold (Request_AddCookie env) (cookies cc)
               (if basicAuth cc \<noteq> emptyAuth
                then Request_SetBasicAuth env (Username (basicAuth cc)) (Password (basicAuth cc))
                       (copy_headers env (headers cc)
                          \<lparr>req_Method = method cc, req_URL = pu, req_Header = [],
                           req_Body = rawBody cc\<rparr>)
                else copy_headers env (headers cc)
                       \<lparr>req_Method = method cc, req_URL = pu, req_Header = [],
                        req_Body = rawBody cc\<rparr>)"
  using assms
  by (auto simp add: makeRequest_def http_NewRequest_def Let_def split: if_splits sum.splits)

lemma makeRequest_values:
  assumes "makeRequest env cc = Inr r"
    and "cookies cc = [] \<or> c \<noteq> CanonicalMIMEHeaderKey env ''Cookie''"
  shows "Header_values (req_Header r) c
     = (if basicAuth cc \<noteq> emptyAuth \<and> CanonicalMIMEHeaderKey env ''Authorization'' = c
        then [''Basic '' @ basicAuth_encode env (Username (basicAuth cc)) (Password (basicAuth cc))]
        else concat (map snd (filter (\<lambda>kv. CanonicalMIMEHeaderKey env (fst kv) = c) (headers cc))))"
proof -
  from makeRequest_Inr [OF assms(1)] obtain pu
    where r: "r = fold (Request_AddCookie env) (cookies cc)
               (if basicAuth cc \<noteq> emptyAuth
                then Request_SetBasicAuth env (Username (basicAuth cc)) (Password (basicAuth cc))
                       (copy_headers env (headers cc)
                          \<lparr>req_Method = method cc, req_URL = pu, req_Header = [],
                           req_Body = rawBody cc\<rparr>)
                else copy_headers env (headers cc)
                       \<lparr>req_Method = method cc, req_URL = pu, req_Header = [],
                        req_Body = rawBody cc\<rparr>)"
    by blast
  have copied: "Header_values (req_Header (copy_headers env (headers cc)
         \<lparr>req_Method = method cc, req_URL = pu, req_Header = [], req_Body = rawBody cc\<rparr>)) c
      = concat (map snd (filter (\<lambda>kv. CanonicalMIMEHeaderKey env (fst kv) = c) (headers cc)))"
    by (simp add: Header_values_copy_headers Header_values_Nil)
  have cookies: "Header_values (req_Header (fold (Request_AddCookie env) (cookies cc) q)) c
      = Header_values (req_Header q) c" for q
    using assms(2) by (auto simp add: Header_values_AddCookies)
  show ?thesis
    by (simp add: r cookies Header_values_SetBasicAuth copied)
qed

lemma fold_AppendHeader:
  "fold (AppendHeader env key) vs cc = cc\<lparr>headers := fold (Header_Add env key) vs (headers cc)\<rparr>"
  by (induction vs arbitrary: cc) (simp_all add: AppendHeader_def)

lemma Header_values_fold_Add:
  "Header_values (fold (Header_Add env key) vs h) c
     = Header_values h c @ (if CanonicalMIMEHeaderKey env key = c then vs else [])"
  by (induction vs arbitrary: h) (simp_all add: Header_values_Add)

lemma canonical_keys_fold_Add:
  "CanonicalMIMEHeaderKey env (CanonicalMIMEHeaderKey env key) = CanonicalMIMEHeaderKey env key \<Longrightarrow>
   canonical_keys env h \<Longrightarrow> canonical_keys env (fold (Header_Add env key) vs h)"
  by (induction vs arbitrary: h) (simp_all add: canonical_keys_Add)

lemma stub_keys: "CanonicalMIMEHeaderKey stub key = key"
  by (simp add: stub_def stub_library_def)

lemmas assemble_defs = makeRequest_def http_NewRequest_def copy_headers_def Header_Add_def
  Header_Set_def Header_Get_def Header_values_def Request_SetBasicAuth_def Request_AddCookie_def
  AppendHeader_def SetHeader_def SetBasicAuth_def AddCookies_def session_cookie_def emptyAuth_def

text \<open>
  C5, as the claim states it, fails for two keys. With basic-auth credentials set,
  \<open>SetHeader("Authorization","Bearer t1")\<close> and \<open>AppendHeader("Authorization","Bearer t2")\<close>
  leave only the basic-auth value on the assembled request, because \<open>makeRequest\<close>
  calls \<open>req.SetBasicAuth\<close> after it has copied the headers. With a cookie pending,
  \<open>SetHeader("Cookie","a=1")\<close> and \<open>AppendHeader("Cookie","b=2")\<close> end as the single
  value \<open>a=1; sid=42\<close>, because \<open>req.AddCookie\<close> rewrites the \<open>Cookie\<close> header from its
  first value.
\<close>

theorem header_value_list_counterexample:
  "makeRequest stub
     (AppendHeader stub ''Authorization'' ''Bearer t2''
        (SetHeader stub ''Authorization'' ''Bearer t1''
           (SetBasicAuth ''u'' ''p'' (Get ''http://a'' New))))
     = Inr (request_a\<lparr>req_Header := [(''Authorization'', [''Basic base64(u:p)''])]\<rparr>)
   \<and> Header_values [(''Authorization'', [''Basic base64(u:p)''])] ''Authorization''
       \<noteq> [''Bearer t1'', ''Bearer t2'']
   \<and> makeRequest stub
        (AppendHeader stub ''Cookie'' ''b=2''
           (SetHeader stub ''Cookie'' ''a=1''
              (AddCookies [session_cookie] (Get ''http://a'' New))))
       = Inr (request_a\<lparr>req_Header := [(''Cookie'', [''a=1; sid=42''])]\<rparr>)
   \<and> Header_values [(''Cookie'', [''a=1; sid=42''])] ''Cookie'' \<noteq> [''a=1'', ''b=2'']"
  by (simp add: assemble_defs call_defs New_def stub_defs request_a_def)

text \<open>
  C5, amended. For every key \<open>k\<close> other than \<open>Authorization\<close> while basic-auth
  credentials are set, and other than \<open>Cookie\<close> while cookies are pending (keys compared
  in canonical form), \<open>SetHeader(k,v)\<close> followed by any number of \<open>AppendHeader(k,v2)\<close>,
  \<open>AppendHeader(k,v3)\<close>, ... yields exactly \<open>[v, v2, v3, ...]\<close> for \<open>k\<close> on the assembled
  request, and \<open>SetHeader(k,v1)\<close> followed by \<open>SetHeader(k,v2)\<close> yields exactly \<open>[v2]\<close>.
  The first two hypotheses are no restriction: the canonical form of a canonical key is
  itself, and the builder's header map has canonical keys (see the last section).
\<close>

theorem header_value_list:
  assumes "CanonicalMIMEHeaderKey env (CanonicalMIMEHeaderKey env k) = CanonicalMIMEHeaderKey env k"
    and "canonical_keys env (headers cc)"
    and "basicAuth cc = emptyAuth
         \<or> CanonicalMIMEHeaderKey env k \<noteq> CanonicalMIMEHeaderKey env ''Authorization''"
    and "cookies cc = [] \<or> CanonicalMIMEHeaderKey env k \<noteq> CanonicalMIMEHeaderKey env ''Cookie''"
  shows "(makeRequest env (fold (AppendHeader env k) vs (SetHeader env k v cc)) = Inr r \<longrightarrow>
            Header_values (req_Header r) (CanonicalMIMEHeaderKey env k) = v # vs)
       \<and> (makeRequest env (SetHeader env k v2 (SetHeader env k v1 cc)) = Inr r' \<longrightarrow>
            Header_values (req_Header r') (CanonicalMIMEHeaderKey env k) = [v2])"
proof -
  let ?k = "CanonicalMIMEHeaderKey env k"
  have general: "Header_values (req_Header q) ?k = v0 # vs0"
    if made: "makeRequest env (fold (AppendHeader env k) vs0 (SetHeader env k v0 cc0)) = Inr q"
      and keys: "canonical_keys env (headers cc0)"
      and auth: "basicAuth cc0 = emptyAuth \<or> ?k \<noteq> CanonicalMIMEHeaderKey env ''Authorization''"
      and cks: "cookies cc0 = [] \<or> ?k \<noteq> CanonicalMIMEHeaderKey env ''Cookie''"
    for q v0 vs0 cc0
  proof -
    let ?cc = "fold (AppendHeader env k) vs0 (SetHeader env k v0 cc0)"
    have fields: "basicAuth ?cc = basicAuth cc0" "cookies ?cc = cookies cc0"
      "headers ?cc = fold (Header_Add env k) vs0 (Header_Set env k v0 (headers cc0))"
      by (simp_all add: fold_AppendHeader SetHeader_def)
    have "canonical_keys env (headers ?cc)"
      by (simp add: fields canonical_keys_fold_Add canonical_keys_Set assms(1) keys)
    then have "concat (map snd (filter (\<lambda>kv. CanonicalMIMEHeaderKey env (fst kv) = ?k) (headers ?cc)))
        = Header_values (headers ?cc) ?k"
      using assms(1) by (rule canonical_keys_values)
    also have "\<dots> = v0 # vs0"
      by (simp add: fields Header_values_fold_Add Header_values_Set)
    finally have own: "concat (map snd (filter (\<lambda>kv. CanonicalMIMEHeaderKey env (fst kv) = ?k) (headers ?cc)))
        = v0 # vs0" .
    from cks have "cookies ?cc = [] \<or> ?k \<noteq> CanonicalMIMEHeaderKey env ''Cookie''"
      by (simp add: fields)
    from makeRequest_values [OF made this] auth own show ?thesis
      by (auto simp add: fields)
  qed
  have first: "Header_values (req_Header r) ?k = v # vs"
    if "makeRequest env (fold (AppendHeader env k) vs (SetHeader env k v cc)) = Inr r"
    using that assms(2-4) by (rule general)
  have second: "Header_values (req_Header r') ?k = [v2]"
    if "makeRequest env (SetHeader env k v2 (SetHeader env k v1 cc)) = Inr r'"
  proof -
    have "makeRequest env (fold (AppendHeader env k) [] (SetHeader env k v2 (SetHeader env k v1 cc)))
        = Inr r'"
      using that by simp
    moreover have "canonical_keys env (headers (SetHeader env k v1 cc))"
      by (simp add: SetHeader_def canonical_keys_Set assms(1,2))
    moreover have "basicAuth (SetHeader env k v1 cc) = emptyAuth
        \<or> ?k \<noteq> CanonicalMIMEHeaderKey env ''Authorization''"
      using assms(3) by (simp add: SetHeader_def)
    moreover have "cookies (SetHeader env k v1 cc) = []
        \<or> ?k \<noteq> CanonicalMIMEHeaderKey env ''Cookie''"
      using assms(4) by (simp add: SetHeader_def)
    ultimately show ?thesis
      by (rule general)
  qed
  from first second show ?thesis
    by blast
qed

text \<open>
  On the configured builder, which has credentials and a cookie, for the key \<open>Accept\<close>.
\<close>

theorem header_value_list_witness:
  "canonical_keys stub (headers configured)
   \<and> CanonicalMIMEHeaderKey stub ''Accept'' \<noteq> CanonicalMIMEHeaderKey stub ''Authorization''
   \<and> CanonicalMIMEHeaderKey stub ''Accept'' \<noteq> CanonicalMIMEHeaderKey stub ''Cookie''
   \<and> makeRequest stub
        (fold (AppendHeader stub ''Accept'') [''application/json'', ''*/*'']
           (SetHeader stub ''Accept'' ''text/html'' configured))
       = Inr \<lparr>req_Method = ''POST'', req_URL = URL ''http://a'',
               req_Header =
                 [(''X-Trace'', [''1'']),
                  (''Accept'', [''text/html'', ''application/json'', ''*/*'']),
                  (''Authorization'', [''Basic base64(u:p)'']),
                  (''Cookie'', [''sid=42''])],
               req_Body = [0x7B, 0x7D]\<rparr>
   \<and> Header_values
         [(''X-Trace'', [''1'']),
          (''Accept'', [''text/html'', ''application/json'', ''*/*'']),
          (''Authorization'', [''Basic base64(u:p)'']),
          (''Cookie'', [''sid=42''])] (CanonicalMIMEHeaderKey stub ''Accept'')
       = [''text/html'', ''application/json'', ''*/*'']
   \<and> makeRequest stub (SetHeader stub ''Accept'' ''*/*'' (SetHeader stub ''Accept'' ''text/html'' configured))
       = Inr \<lparr>req_Method = ''POST'', req_URL = URL ''http://a'',
               req_Header =
                 [(''X-Trace'', [''1'']), (''Accept'', [''*/*'']),
                  (''Authorization'', [''Basic base64(u:p)'']),
                  (''Cookie'', [''sid=42''])],
               req_Body = [0x7B, 0x7D]\<rparr>
   \<and> Header_values
         [(''X-Trace'', [''1'']), (''Accept'', [''*/*'']),
          (''Authorization'', [''Basic base64(u:p)'']),
          (''Cookie'', [''sid=42''])] (CanonicalMIMEHeaderKey stub ''Accept'')
       = [''*/*'']"
proof -
  let ?r = "\<lparr>req_Method = ''POST'', req_URL = URL ''http://a'',
               req_Header =
                 [(''X-Trace'', [''1'']),
                  (''Accept'', [''text/html'', ''application/json'', ''*/*'']),
                  (''Authorization'', [''Basic base64(u:p)'']),
                  (''Cookie'', [''sid=42''])],
               req_Body = [0x7B, 0x7D]\<rparr>"
  let ?r' = "\<lparr>req_Method = ''POST'', req_URL = URL ''http://a'',
               req_Header =
                 [(''X-Trace'', [''1'']), (''Accept'', [''*/*'']),
                  (''Authorization'', [''Basic base64(u:p)'']),
                  (''Cookie'', [''sid=42''])],
               req_Body = [0x7B, 0x7D]\<rparr>"
  have idem: "CanonicalMIMEHeaderKey stub (CanonicalMIMEHeaderKey stub ''Accept'')
      = CanonicalMIMEHeaderKey stub ''Accept''"
    by (simp add: stub_keys)
  have keys: "canonical_keys stub (headers configured)"
    by (simp add: configured_eq New_def canonical_keys_def stub_keys)
  have other: "CanonicalMIMEHeaderKey stub ''Accept'' \<noteq> CanonicalMIMEHeaderKey stub ''Authorization''"
    "CanonicalMIMEHeaderKey stub ''Accept'' \<noteq> CanonicalMIMEHeaderKey stub ''Cookie''"
    by (simp_all add: stub_keys)
  have made: "makeRequest stub
        (fold (AppendHeader stub ''Accept'') [''application/json'', ''*/*'']
           (SetHeader stub ''Accept'' ''text/html'' configured)) = Inr ?r"
    "makeRequest stub (SetHeader stub ''Accept'' ''*/*'' (SetHeader stub ''Accept'' ''text/html'' configured))
       = Inr ?r'"
    by (simp_all add: configured_eq assemble_defs New_def stub_defs)
  have hdr: "req_Header ?r = [(''X-Trace'', [''1'']),
                  (''Accept'', [''text/html'', ''application/json'', ''*/*'']),
                  (''Authorization'', [''Basic base64(u:p)'']),
                  (''Cookie'', [''sid=42''])]"
    "req_Header ?r' = [(''X-Trace'', [''1'']), (''Accept'', [''*/*'']),
                  (''Authorization'', [''Basic base64(u:p)'']),
                  (''Cookie'', [''sid=42''])]"
    by simp_all
  from header_value_list
    [OF idem keys disjI2 [OF other(1)] disjI2 [OF other(2)],
     where v = "''text/html''" and vs = "[''application/json'', ''*/*'']" and r = ?r
       and ?v1.0 = "''text/html''" and ?v2.0 = "''*/*''" and r' = ?r']
    made hdr
  have "Header_values (req_Header ?r) (CanonicalMIMEHeaderKey stub ''Accept'')
          = [''text/html'', ''application/json'', ''*/*'']
      \<and> Header_values (req_Header ?r') (CanonicalMIMEHeaderKey stub ''Accept'') = [''*/*'']"
    by blast
  with keys other made hdr show ?thesis
    by metis
qed

text \<open>
  C7. On the assembled request, the value list of \<open>Authorization\<close> is the basic-auth
  header that \<open>req.SetBasicAuth\<close> writes when the stored credentials differ from the
  zero value, and otherwise it is what the builder's own headers hold under that key:
  nothing is added. So when the caller has put no \<open>Authorization\<close> header in by hand,
  the request has one exactly when the credentials differ from the zero value.
  \<open>SetBasicAuth("", "")\<close> stores the zero value: the credentials are those of a new
  builder, a builder that holds them is not changed by the call, the request assembled
  afterwards is the one assembled from the builder with a new builder's credentials,
  and its \<open>Authorization\<close> values are the builder's own. The one hypothesis is a fact of
  Go: \<open>Cookie\<close> and \<open>Authorization\<close> are different canonical keys.
\<close>

theorem basic_auth_header:
  assumes "CanonicalMIMEHeaderKey env ''Cookie'' \<noteq> CanonicalMIMEHeaderKey env ''Authorization''"
  shows "(makeRequest env cc = Inr r \<longrightarrow>
           Header_values (req_Header r) (CanonicalMIMEHeaderKey env ''Authorization'')
             = (if basicAuth cc \<noteq> emptyAuth
                then [''Basic '' @ basicAuth_encode env (Username (basicAuth cc))
                                    (Password (basicAuth cc))]
                else own_values env (headers cc) (CanonicalMIMEHeaderKey env ''Authorization''))
           \<and> (own_values env (headers cc) (CanonicalMIMEHeaderKey env ''Authorization'') = [] \<longrightarrow>
                (Header_values (req_Header r) (CanonicalMIMEHeaderKey env ''Authorization'') \<noteq> [])
                  = (basicAuth cc \<noteq> emptyAuth)))
       \<and> basicAuth (SetBasicAuth [] [] cc) = basicAuth New
       \<and> SetBasicAuth [] [] (cc\<lparr>basicAuth := basicAuth New\<rparr>) = cc\<lparr>basicAuth := basicAuth New\<rparr>
       \<and> makeRequest env (SetBasicAuth [] [] cc) = makeRequest env (cc\<lparr>basicAuth := basicAuth New\<rparr>)
       \<and> (makeRequest env (SetBasicAuth [] [] cc) = Inr r' \<longrightarrow>
           Header_values (req_Header r') (CanonicalMIMEHeaderKey env ''Authorization'')
             = own_values env (headers cc) (CanonicalMIMEHeaderKey env ''Authorization''))"
proof -
  let ?a = "CanonicalMIMEHeaderKey env ''Authorization''"
  have authz: "Header_values (req_Header q) ?a
      = (if basicAuth cc0 \<noteq> emptyAuth
         then [''Basic '' @ basicAuth_encode env (Username (basicAuth cc0)) (Password (basicAuth cc0))]
         else own_values env (headers cc0) ?a)"
    if "makeRequest env cc0 = Inr q" for q cc0
    using makeRequest_values [OF that, of ?a] assms
    by (auto simp add: own_values_def)
  have zero: "SetBasicAuth [] [] cc = cc\<lparr>basicAuth := emptyAuth\<rparr>" "basicAuth New = emptyAuth"
    "SetBasicAuth [] [] (cc\<lparr>basicAuth := emptyAuth\<rparr>) = cc\<lparr>basicAuth := emptyAuth\<rparr>"
    by (simp_all add: SetBasicAuth_def emptyAuth_def New_def)
  have first: "Header_values (req_Header r) ?a
             = (if basicAuth cc \<noteq> emptyAuth
                then [''Basic '' @ basicAuth_encode env (Username (basicAuth cc))
                                    (Password (basicAuth cc))]
                else own_values env (headers cc) ?a)
           \<and> (own_values env (headers cc) ?a = [] \<longrightarrow>
                (Header_values (req_Header r) ?a \<noteq> []) = (basicAuth cc \<noteq> emptyAuth))"
    if "makeRequest env cc = Inr r"
    using authz [OF that] by simp
  have last: "Header_values (req_Header r') ?a = own_values env (headers cc) ?a"
    if "makeRequest env (SetBasicAuth [] [] cc) = Inr r'"
    using authz [OF that] by (simp add: zero)
  from first last show ?thesis
    by (simp add: zero)
qed

text \<open>
  On the configured builder: with the credentials \<open>u\<close> and \<open>p\<close> the header is there, and
  after \<open>SetBasicAuth("", "")\<close> it is not. On a builder without credentials whose caller
  has set \<open>Authorization\<close> by hand, the request carries the caller's value.
\<close>

theorem basic_auth_header_witness:
  "CanonicalMIMEHeaderKey stub ''Cookie'' \<noteq> CanonicalMIMEHeaderKey stub ''Authorization''
   \<and> own_values stub (headers configured) (CanonicalMIMEHeaderKey stub ''Authorization'') = []
   \<and> basicAuth configured \<noteq> emptyAuth
   \<and> makeRequest stub configured
       = Inr \<lparr>req_Method = ''POST'', req_URL = URL ''http://a'',
               req_Header =
                 [(''X-Trace'', [''1'']), (''Authorization'', [''Basic base64(u:p)'']),
                  (''Cookie'', [''sid=42''])],
               req_Body = [0x7B, 0x7D]\<rparr>
   \<and> Header_values
         [(''X-Trace'', [''1'']), (''Authorization'', [''Basic base64(u:p)'']),
          (''Cookie'', [''sid=42''])] (CanonicalMIMEHeaderKey stub ''Authorization'')
       = [''Basic '' @ basicAuth_encode stub ''u'' ''p'']
   \<and> basicAuth (SetBasicAuth [] [] configured) = emptyAuth
   \<and> makeRequest stub (SetBasicAuth [] [] configured)
       = Inr \<lparr>req_Method = ''POST'', req_URL = URL ''http://a'',
               req_Header = [(''X-Trace'', [''1'']), (''Cookie'', [''sid=42''])],
               req_Body = [0x7B, 0x7D]\<rparr>
   \<and> Header_values [(''X-Trace'', [''1'']), (''Cookie'', [''sid=42''])]
         (CanonicalMIMEHeaderKey stub ''Authorization'') = []
   \<and> basicAuth (SetHeader stub ''Authorization'' ''Bearer t'' (Get ''http://a'' New)) = emptyAuth
   \<and> makeRequest stub (SetHeader stub ''Authorization'' ''Bearer t'' (Get ''http://a'' New))
       = Inr (request_a\<lparr>req_Header := [(''Authorization'', [''Bearer t''])]\<rparr>)
   \<and> Header_values [(''Authorization'', [''Bearer t''])]
         (CanonicalMIMEHeaderKey stub ''Authorization'') = [''Bearer t'']"
proof -
  let ?r = "\<lparr>req_Method = ''POST'', req_URL = URL ''http://a'',
               req_Header =
                 [(''X-Trace'', [''1'']), (''Authorization'', [''Basic base64(u:p)'']),
                  (''Cookie'', [''sid=42''])],
               req_Body = [0x7B, 0x7D]\<rparr>"
  let ?r' = "\<lparr>req_Method = ''POST'', req_URL = URL ''http://a'',
               req_Header = [(''X-Trace'', [''1'']), (''Cookie'', [''sid=42''])],
               req_Body = [0x7B, 0x7D]\<rparr>"
  let ?bearer = "SetHeader stub ''Authorization'' ''Bearer t'' (Get ''http://a'' New)"
  let ?rb = "request_a\<lparr>req_Header := [(''Authorization'', [''Bearer t''])]\<rparr>"
  have apart: "CanonicalMIMEHeaderKey stub ''Cookie'' \<noteq> CanonicalMIMEHeaderKey stub ''Authorization''"
    by (simp add: stub_keys)
  have own: "own_values stub (headers configured) (CanonicalMIMEHeaderKey stub ''Authorization'') = []"
    "own_values stub (headers ?bearer) (CanonicalMIMEHeaderKey stub ''Authorization'') = [''Bearer t'']"
    by (simp_all add: configured_eq New_def stub_keys own_values_def SetHeader_def Header_Set_def
        call_defs)
  have creds: "basicAuth configured \<noteq> emptyAuth" "Username (basicAuth configured) = ''u''"
    "Password (basicAuth configured) = ''p''" "basicAuth New = emptyAuth"
    "basicAuth ?bearer = emptyAuth"
    by (simp_all add: configured_eq New_def emptyAuth_def SetHeader_def call_defs)
  have made: "makeRequest stub configured = Inr ?r"
    "makeRequest stub (SetBasicAuth [] [] configured) = Inr ?r'"
    "makeRequest stub ?bearer = Inr ?rb"
    by (simp_all add: configured_eq assemble_defs call_defs New_def stub_defs request_a_def)
  have hdr: "req_Header ?r = [(''X-Trace'', [''1'']), (''Authorization'', [''Basic base64(u:p)'']),
          (''Cookie'', [''sid=42''])]"
    "req_Header ?r' = [(''X-Trace'', [''1'']), (''Cookie'', [''sid=42''])]"
    "req_Header ?rb = [(''Authorization'', [''Bearer t''])]"
    by simp_all
  have one: "Header_values (req_Header ?r) (CanonicalMIMEHeaderKey stub ''Authorization'')
          = [''Basic '' @ basicAuth_encode stub ''u'' ''p'']
      \<and> basicAuth (SetBasicAuth [] [] configured) = emptyAuth
      \<and> Header_values (req_Header ?r') (CanonicalMIMEHeaderKey stub ''Authorization'') = []"
    using made creds own basic_auth_header [OF apart, where cc = configured and r = ?r and r' = ?r']
    by simp
  have two: "Header_values (req_Header ?rb) (CanonicalMIMEHeaderKey stub ''Authorization'')
          = [''Bearer t'']"
    using made creds own basic_auth_header [OF apart, where cc = ?bearer and r = ?rb]
    by simp
  from apart own creds made one two show ?thesis
    by (simp only: hdr) simp
qed

section \<open>The sticky error\<close>

text \<open>
  No configuration call reads \<open>cc.err\<close>, and only \<open>Proxy\<close> writes it, when its URL does
  not parse. So a call whose proxy URL parses does to every other field what it does
  when no error is pending, and leaves the error where it is.
\<close>

lemma config_keeps_err:
  "proxy_url_parses env c \<Longrightarrow> err (config env c cc) = err cc"
  by (cases c)
    (simp_all add: AddCookies_def SetHeader_def AppendHeader_def SetBasicAuth_def Proxy_def
      Payload_def ClearRequestData_def ClearCookies_def ClearProxy_def split: sum.splits)

lemma configs_keep_err:
  "list_all (proxy_url_parses env) cs \<Longrightarrow> err (fold (config env) cs cc) = err cc"
  by (induction cs arbitrary: cc) (simp_all add: config_keeps_err)

lemma config_ignores_err:
  "proxy_url_parses env c \<Longrightarrow> config env c (cc\<lparr>err := x\<rparr>) = (config env c cc)\<lparr>err := x\<rparr>"
  by (cases c)
    (simp_all add: AddCookies_def SetHeader_def AppendHeader_def SetBasicAuth_def Proxy_def
      Payload_def ClearRequestData_def ClearCookies_def ClearProxy_def split: sum.splits)

lemma configs_ignore_err:
  "list_all (proxy_url_parses env) cs \<Longrightarrow>
   fold (config env) cs (cc\<lparr>err := x\<rparr>) = (fold (config env) cs cc)\<lparr>err := x\<rparr>"
  by (induction cs arbitrary: cc) (simp_all add: config_ignores_err)

text \<open>
  C6, as the claim states it, fails: the configuration calls are not guarded. With the
  error of a bad proxy URL pending, \<open>SetHeader\<close>, \<open>AddCookies\<close> and \<open>Payload\<close> still
  change the headers, the cookies and the body.
\<close>

theorem guarded_no_ops_counterexample:
  "err (Proxy stub bad_url New) = Some (errorString ''net/url: invalid control character in URL'')
   \<and> headers (Proxy stub bad_url New) = []
   \<and> headers (SetHeader stub ''X-Trace'' ''1'' (Proxy stub bad_url New)) = [(''X-Trace'', [''1''])]
   \<and> cookies (Proxy stub bad_url New) = []
   \<and> cookies (AddCookies [session_cookie] (Proxy stub bad_url New)) = [session_cookie]
   \<and> rawBody (Proxy stub bad_url New) = []
   \<and> rawBody (Payload [0x7B, 0x7D] (Proxy stub bad_url New)) = [0x7B, 0x7D]"
  by (simp add: Proxy_def stub_defs bad_url_def New_def SetHeader_def Header_Set_def
      AddCookies_def Payload_def)

text \<open>
  C6, amended. Once an error is pending, the configuration calls are still not guarded:
  each updates its own field as it always does (\<open>AddCookies\<close> appends, \<open>SetHeader\<close> and
  \<open>AppendHeader\<close> write the header map, \<open>SetBasicAuth\<close> and \<open>Payload\<close> store their
  arguments, \<open>Proxy\<close> with a URL that parses stores the resolver, the Clear calls
  reset their fields), and a chain of such calls leaves the builder it would leave with
  no error pending, but for the error. None of them touches the sticky error, so it
  stays through any chain of configuration calls in which every \<open>Proxy\<close> call is given
  a URL that parses; \<open>End()\<close> then returns that error without calling the transport; and
  a method-selection call clears it. What a \<open>Proxy\<close> call with a URL that does not parse
  does to a pending error is left out of this statement.
\<close>

theorem pending_error_kept:
  assumes "err cc = Some e" and "list_all (proxy_url_parses env) cs"
  shows "err (fold (config env) cs cc) = Some e
       \<and> fold (config env) cs cc = (fold (config env) cs (cc\<lparr>err := None\<rparr>))\<lparr>err := Some e\<rparr>
       \<and> End env (fold (config env) cs cc) w = (Some e, fold (config env) cs cc, w)
       \<and> ((f, m) \<in> set method_selection_calls \<longrightarrow> err (f u (fold (config env) cs cc)) = None)
       \<and> AddCookies cks cc = cc\<lparr>cookies := cookies cc @ cks\<rparr>
       \<and> SetHeader env k v cc = cc\<lparr>headers := Header_Set env k v (headers cc)\<rparr>
       \<and> AppendHeader env k v cc = cc\<lparr>headers := Header_Add env k v (headers cc)\<rparr>
       \<and> SetBasicAuth un pw cc = cc\<lparr>basicAuth := \<lparr>Username = un, Password = pw\<rparr>\<rparr>
       \<and> Payload d cc = cc\<lparr>rawBody := d\<rparr>
       \<and> (url_Parse env s = Inr pu \<longrightarrow> Proxy env s cc = cc\<lparr>proxy := Some (http_ProxyURL pu)\<rparr>)
       \<and> ClearRequestData cc
           = cc\<lparr>url := [], method := [], headers := [], basicAuth := emptyAuth, rawBody := []\<rparr>
       \<and> ClearCookies cc = cc\<lparr>cookies := []\<rparr>
       \<and> ClearProxy cc = cc\<lparr>proxy := None\<rparr>"
proof -
  have kept: "err (fold (config env) cs cc) = Some e"
    using assms by (simp add: configs_keep_err)
  then have ended: "End env (fold (config env) cs cc) w = (Some e, fold (config env) cs cc, w)"
    by (rule End_pending)
  have "cc = (cc\<lparr>err := None\<rparr>)\<lparr>err := Some e\<rparr>"
    using assms(1) by simp
  then have "fold (config env) cs cc = fold (config env) cs ((cc\<lparr>err := None\<rparr>)\<lparr>err := Some e\<rparr>)"
    by simp
  also have "\<dots> = (fold (config env) cs (cc\<lparr>err := None\<rparr>))\<lparr>err := Some e\<rparr>"
    using assms(2) by (rule configs_ignore_err)
  finally have same: "fold (config env) cs cc
      = (fold (config env) cs (cc\<lparr>err := None\<rparr>))\<lparr>err := Some e\<rparr>" .
  have cleared: "err (f u (fold (config env) cs cc)) = None"
    if "(f, m) \<in> set method_selection_calls"
    using that by (auto simp add: method_selection_calls_def call_defs)
  have calls: "AddCookies cks cc = cc\<lparr>cookies := cookies cc @ cks\<rparr>
       \<and> SetHeader env k v cc = cc\<lparr>headers := Header_Set env k v (headers cc)\<rparr>
       \<and> AppendHeader env k v cc = cc\<lparr>headers := Header_Add env k v (headers cc)\<rparr>
       \<and> SetBasicAuth un pw cc = cc\<lparr>basicAuth := \<lparr>Username = un, Password = pw\<rparr>\<rparr>
       \<and> Payload d cc = cc\<lparr>rawBody := d\<rparr>
       \<and> (url_Parse env s = Inr pu \<longrightarrow> Proxy env s cc = cc\<lparr>proxy := Some (http_ProxyURL pu)\<rparr>)
       \<and> ClearRequestData cc
           = cc\<lparr>url := [], method := [], headers := [], basicAuth := emptyAuth, rawBody := []\<rparr>
       \<and> ClearCookies cc = cc\<lparr>cookies := []\<rparr>
       \<and> ClearProxy cc = cc\<lparr>proxy := None\<rparr>"
    by (simp add: AddCookies_def SetHeader_def AppendHeader_def SetBasicAuth_def Proxy_def
      Payload_def ClearRequestData_def ClearCookies_def ClearProxy_def)
  from kept same ended cleared calls show ?thesis
    by blast
qed

text \<open>
  With the error of a bad proxy URL pending on a new builder, the chain
  \<open>SetHeader("X-Trace","1").Proxy("http://proxy:8080").AddCookies([sid=42])\<close> sets the
  header, the resolver and the cookie and keeps the error; \<open>End()\<close> returns it with the
  stub's call log empty; \<open>Get\<close> clears it.
\<close>

theorem pending_error_kept_witness:
  "err (Proxy stub bad_url New) = Some (errorString ''net/url: invalid control character in URL'')
   \<and> list_all (proxy_url_parses stub)
        [Call_SetHeader ''X-Trace'' ''1'', Call_Proxy ''http://proxy:8080'',
         Call_AddCookies [session_cookie]]
   \<and> (Get, GET) \<in> set method_selection_calls
   \<and> url_Parse stub ''http://proxy:8080'' = Inr (URL ''http://proxy:8080'')
   \<and> fold (config stub)
        [Call_SetHeader ''X-Trace'' ''1'', Call_Proxy ''http://proxy:8080'',
         Call_AddCookies [session_cookie]] (Proxy stub bad_url New)
       = New\<lparr>headers := [(''X-Trace'', [''1''])],
             proxy := Some (http_ProxyURL (URL ''http://proxy:8080'')),
             cookies := [session_cookie],
             err := Some (errorString ''net/url: invalid control character in URL'')\<rparr>
   \<and> End stub (fold (config stub)
        [Call_SetHeader ''X-Trace'' ''1'', Call_Proxy ''http://proxy:8080'',
         Call_AddCookies [session_cookie]] (Proxy stub bad_url New)) []
       = (Some (errorString ''net/url: invalid control character in URL''),
          New\<lparr>headers := [(''X-Trace'', [''1''])],
              proxy := Some (http_ProxyURL (URL ''http://proxy:8080'')),
              cookies := [session_cookie],
              err := Some (errorString ''net/url: invalid control character in URL'')\<rparr>,
          [])
   \<and> err (Get ''http://a'' (fold (config stub)
        [Call_SetHeader ''X-Trace'' ''1'', Call_Proxy ''http://proxy:8080'',
         Call_AddCookies [session_cookie]] (Proxy stub bad_url New)))
       = None
   \<and> Proxy stub ''http://proxy:8080'' (Proxy stub bad_url New)
       = (Proxy stub bad_url New)\<lparr>proxy := Some (http_ProxyURL (URL ''http://proxy:8080''))\<rparr>"
proof -
  let ?cs = "[Call_SetHeader ''X-Trace'' ''1'', Call_Proxy ''http://proxy:8080'',
         Call_AddCookies [session_cookie]]"
  let ?e = "errorString ''net/url: invalid control character in URL''"
  let ?p = "Some (http_ProxyURL (URL ''http://proxy:8080''))"
  have bad: "Proxy stub bad_url New = New\<lparr>err := Some ?e\<rparr>"
    by (simp add: Proxy_def stub_defs bad_url_def)
  have pending: "err (Proxy stub bad_url New) = Some ?e"
    by (simp add: bad)
  have parse: "list_all (proxy_url_parses stub) ?cs"
    by (simp add: stub_defs)
  have good: "url_Parse stub ''http://proxy:8080'' = Inr (URL ''http://proxy:8080'')"
    by (simp add: stub_defs)
  have sel: "(Get, GET) \<in> set method_selection_calls"
    by (simp add: method_selection_calls_def)
  have quiet: "(fold (config stub) ?cs ((Proxy stub bad_url New)\<lparr>err := None\<rparr>))\<lparr>err := Some ?e\<rparr>
      = New\<lparr>headers := [(''X-Trace'', [''1''])], proxy := ?p, cookies := [session_cookie],
            err := Some ?e\<rparr>"
    by (simp add: bad SetHeader_def Header_Set_def Proxy_def AddCookies_def stub_defs New_def)
  note inst = pending_error_kept [OF pending parse, where w = "[]" and f = Get and m = GET
      and u = "''http://a''" and s = "''http://proxy:8080''" and pu = "URL ''http://proxy:8080''"]
  from inst sel good
  have same: "fold (config stub) ?cs (Proxy stub bad_url New)
         = (fold (config stub) ?cs ((Proxy stub bad_url New)\<lparr>err := None\<rparr>))\<lparr>err := Some ?e\<rparr>"
    and ended: "End stub (fold (config stub) ?cs (Proxy stub bad_url New)) []
         = (Some ?e, fold (config stub) ?cs (Proxy stub bad_url New), [])"
    and cleared: "err (Get ''http://a'' (fold (config stub) ?cs (Proxy stub bad_url New))) = None"
    and proxied: "Proxy stub ''http://proxy:8080'' (Proxy stub bad_url New)
         = (Proxy stub bad_url New)\<lparr>proxy := ?p\<rparr>"
    by blast+
  from same quiet have eq: "fold (config stub) ?cs (Proxy stub bad_url New)
      = New\<lparr>headers := [(''X-Trace'', [''1''])], proxy := ?p, cookies := [session_cookie],
            err := Some ?e\<rparr>"
    by (rule trans)
  from pending parse sel good ended cleared proxied show ?thesis
    by (simp only: eq)
qed

text \<open>
  The case left out above: \<open>Proxy\<close> assigns \<open>cc.err\<close> without looking at it.
  \<open>New().Get("").End()\<close> fails with "no url specified", and a \<open>Proxy\<close> call with a bad URL
  then replaces that error by its own, although the comment on \<open>Error()\<close> says it returns
  the first error.
\<close>

lemma Proxy_overwrites_pending_error:
  "err (fst (snd (End stub (Get [] New) []))) = Some (errorString ''no url specified'')
   \<and> err (Proxy stub bad_url (fst (snd (End stub (Get [] New) []))))
       = Some (errorString ''net/url: invalid control character in URL'')"
  by (simp add: End_def makeRequest_def call_defs New_def Proxy_def stub_defs bad_url_def)

section \<open>The builder's header map\<close>

text \<open>
  The header map of a builder has canonical keys, one entry each: it is so in a new
  builder, every method keeps it so, given that the canonical form of a canonical key is
  the key itself, and the executors do not touch the headers.
\<close>

lemma canonical_keys_New: "canonical_keys env (headers New)"
  by (simp add: New_def canonical_keys_Nil)

lemma canonical_keys_selection:
  "(f, m) \<in> set method_selection_calls \<Longrightarrow> canonical_keys env (headers (f u cc))"
  by (auto simp add: method_selection_calls_def call_defs canonical_keys_Nil)

lemma canonical_keys_config:
  assumes "\<And>key. CanonicalMIMEHeaderKey env (CanonicalMIMEHeaderKey env key)
                  = CanonicalMIMEHeaderKey env key"
    and "canonical_keys env (headers cc)"
  shows "canonical_keys env (headers (config env c cc))"
  using assms
  by (cases c)
    (simp_all add: AddCookies_def SetHeader_def AppendHeader_def SetBasicAuth_def Proxy_def
      Payload_def ClearRequestData_def ClearCookies_def ClearProxy_def canonical_keys_Set
      canonical_keys_Add canonical_keys_Nil split: sum.splits)

lemma headers_End: "End env cc w = (r, cc', w') \<Longrightarrow> headers cc' = headers cc"
  by (cases rule: End_cases [where env = env and cc = cc and w = w])
    (auto simp add: End_pending End_not_assembled End_not_sent End_not_read End_success)

lemma headers_Do: "Do env req cc w = (res, cc', w') \<Longrightarrow> headers cc' = headers cc"
  by (auto simp add: Do_def Let_def split: prod.splits sum.splits option.splits)

text \<open>
  Given that, the order in which \<open>makeRequest\<close> visits the keys of the map does not show
  on the assembled request: any list of the same entries gives the same value lists.
\<close>

lemma copy_headers_any_order:
  assumes "canonical_keys env hs" and "distinct (map fst hs')" and "set hs' = set hs"
    and "CanonicalMIMEHeaderKey env c = c"
  shows "Header_values (req_Header (copy_headers env hs' r)) c
           = Header_values (req_Header (copy_headers env hs r)) c"
proof -
  have keys': "canonical_keys env hs'"
    using assms(1-3) by (simp add: canonical_keys_def list_all_iff)
  have "map_of hs' = map_of hs"
    using assms(1-3) by (simp add: map_of_inject_set canonical_keys_def)
  then have "Header_values hs' c = Header_values hs c"
    by (simp add: Header_values_def)
  then show ?thesis
    by (simp add: Header_values_copy_headers canonical_keys_values [OF assms(1,4)]
        canonical_keys_values [OF keys' assms(4)])
qed

end
